theory Spec2Isabelle
  imports Complex_Main "HOL-Library.AList"
begin

section \<open>Strings as the program uses them\<close>

text \<open>
  A text is a \<^typ>\<open>string\<close>: a list of code units below 256 (the Latin-1 range); texts with
  higher code units are outside the model. Within that range \<open>\s\<close> and \<open>trim\<close> accept tab, line
  feed, vertical tab, form feed, carriage return, space and the no-break space U+00A0; the line
  terminators are line feed and carriage return; \<open>\w\<close> is \<open>[A-Za-z0-9_]\<close>.
\<close>

definition isSpace :: "char \<Rightarrow> bool" where
  "isSpace c = (c \<in> set [CHR '' '', CHR 0x09, CHR 0x0A, CHR 0x0B, CHR 0x0C, CHR 0x0D, CHR 0xA0])"

definition isLineTerminator :: "char \<Rightarrow> bool" where
  "isLineTerminator c = (c = CHR 0x0A \<or> c = CHR 0x0D)"

definition isWordChar :: "char \<Rightarrow> bool" where
  "isWordChar c =
     (c \<in> set ''ABCDEFGHIJKLMNOPQRSTUVWXYZabcdefghijklmnopqrstuvwxyz0123456789_'')"

text \<open>
  Case mapping of one code unit: the letters \<open>A\<close> to \<open>Z\<close> and the Latin-1 letters U+00C0 to U+00DE
  (without the multiplication sign U+00D7) have their lower-case form 32 places further. The
  upper-case forms of U+00DF, U+00B5 and U+00FF are not single code units below 256; the
  program takes upper case only of a matched direction keyword, and two code units below 256
  are equal under the \<open>i\<close> flag exactly when their lower-case forms are equal.
\<close>

definition toLowerChar :: "char \<Rightarrow> char" where
  "toLowerChar c =
     (case map_of (zip ''ABCDEFGHIJKLMNOPQRSTUVWXYZ'' ''abcdefghijklmnopqrstuvwxyz'') c of
        Some d \<Rightarrow> d
      | None \<Rightarrow>
          if 0xC0 \<le> (of_char c :: nat) \<and> (of_char c :: nat) \<le> 0xDE \<and> c \<noteq> CHR 0xD7
          then char_of ((of_char c :: nat) + 32) else c)"

definition toUpperChar :: "char \<Rightarrow> char" where
  "toUpperChar c =
     (case map_of (zip ''abcdefghijklmnopqrstuvwxyz'' ''ABCDEFGHIJKLMNOPQRSTUVWXYZ'') c of
        Some d \<Rightarrow> d
      | None \<Rightarrow>
          if 0xE0 \<le> (of_char c :: nat) \<and> (of_char c :: nat) \<le> 0xFE \<and> c \<noteq> CHR 0xF7
          then char_of ((of_char c :: nat) - 32) else c)"

definition toLowerCase :: "string \<Rightarrow> string" where
  "toLowerCase s = map toLowerChar s"

definition toUpperCase :: "string \<Rightarrow> string" where
  "toUpperCase s = map toUpperChar s"

definition trim :: "string \<Rightarrow> string" where
  "trim s = rev (dropWhile isSpace (rev (dropWhile isSpace s)))"

fun startsWith :: "string \<Rightarrow> string \<Rightarrow> bool" where
  "startsWith s [] = True"
| "startsWith [] (p # ps) = False"
| "startsWith (c # cs) (p # ps) = (c = p \<and> startsWith cs ps)"

fun includesStr :: "string \<Rightarrow> string \<Rightarrow> bool" where
  "includesStr [] p = (p = [])"
| "includesStr (c # cs) p = (startsWith (c # cs) p \<or> includesStr cs p)"

text \<open>\<open>s.split('\n')\<close>: always at least one piece.\<close>

fun splitLines :: "string \<Rightarrow> string list" where
  "splitLines [] = [[]]"
| "splitLines (c # cs) =
     (if c = CHR 0x0A then [] # splitLines cs
      else (case splitLines cs of [] \<Rightarrow> [[c]] | l # ls \<Rightarrow> (c # l) # ls))"

text \<open>\<open>xs.join(sep)\<close>.\<close>

fun joinWith :: "string \<Rightarrow> string list \<Rightarrow> string" where
  "joinWith sep [] = []"
| "joinWith sep [x] = x"
| "joinWith sep (x # y # ys) = x @ sep @ joinWith sep (y # ys)"

text \<open>Decimal rendering of a counter inside a template string.\<close>

definition digitChar :: "nat \<Rightarrow> char" where
  "digitChar d = (''0123456789'' ! d)"

fun decimal :: "nat \<Rightarrow> string" where
  "decimal n = (if n < 10 then [digitChar n] else decimal (n div 10) @ [digitChar (n mod 10)])"

declare decimal.simps [simp del]

section \<open>Regular expressions with backtracking priorities\<close>

text \<open>
  The parsers are cascades of regular expressions. The expressions of the source are written
  as values of \<open>rx\<close>; \<open>run\<close> lists every way an expression can match at a position, in the
  order in which a backtracking matcher tries them (greedy: longest first, lazy: shortest
  first, alternatives left to right), so the head of the list is the match the engine
  reports. A state holds the text before the position (reversed), the text after it, and the
  capture groups recorded so far.
\<close>

datatype citem = CChar char | CRange char char | CWord | CSpace | CNonSpace

datatype rx =
    Lit char
  | Cls bool "citem list"
  | Dot
  | Bol
  | Eol
  | WordB
  | Eps
  | Seq rx rx
  | Alt rx rx
  | Star bool rx
  | Grp nat rx

datatype mst = MSt (consumed: string) (rest: string) (caps: "(nat \<times> string) list")

record flags =
  ignoreCase :: bool
  multiline :: bool

definition noFlags :: flags where
  "noFlags = \<lparr>ignoreCase = False, multiline = False\<rparr>"

definition flagI :: flags where
  "flagI = \<lparr>ignoreCase = True, multiline = False\<rparr>"


definition chEq :: "flags \<Rightarrow> char \<Rightarrow> char \<Rightarrow> bool" where
  "chEq f a b = (if ignoreCase f then toLowerChar a = toLowerChar b else a = b)"

definition inRange :: "char \<Rightarrow> char \<Rightarrow> char \<Rightarrow> bool" where
  "inRange lo hi c = ((of_char lo :: nat) \<le> of_char c \<and> (of_char c :: nat) \<le> of_char hi)"

fun citemMatches :: "flags \<Rightarrow> citem \<Rightarrow> char \<Rightarrow> bool" where
  "citemMatches f (CChar a) c = chEq f a c"
| "citemMatches f (CRange lo hi) c =
     (inRange lo hi c \<or> (ignoreCase f \<and> (inRange lo hi (toLowerChar c) \<or> inRange lo hi (toUpperChar c))))"
| "citemMatches f CWord c = isWordChar c"
| "citemMatches f CSpace c = isSpace c"
| "citemMatches f CNonSpace c = (\<not> isSpace c)"

definition atWordBoundary :: "mst \<Rightarrow> bool" where
  "atWordBoundary st =
     ((case consumed st of [] \<Rightarrow> False | b # _ \<Rightarrow> isWordChar b)
      \<noteq> (case rest st of [] \<Rightarrow> False | a # _ \<Rightarrow> isWordChar a))"

definition advance :: "mst \<Rightarrow> mst list" where
  "advance st = (case rest st of [] \<Rightarrow> [] | x # xs \<Rightarrow> [MSt (x # consumed st) xs (caps st)])"

definition captured :: "mst \<Rightarrow> mst \<Rightarrow> string" where
  "captured st st' = rev (take (length (consumed st') - length (consumed st)) (consumed st'))"

function run :: "flags \<Rightarrow> rx \<Rightarrow> mst \<Rightarrow> mst list" where
  "run f (Lit c) st =
     (case rest st of [] \<Rightarrow> [] | x # xs \<Rightarrow> if chEq f c x then advance st else [])"
| "run f (Cls neg items) st =
     (case rest st of [] \<Rightarrow> []
      | x # xs \<Rightarrow> if list_ex (\<lambda>i. citemMatches f i x) items \<noteq> neg then advance st else [])"
| "run f Dot st =
     (case rest st of [] \<Rightarrow> [] | x # xs \<Rightarrow> if isLineTerminator x then [] else advance st)"
| "run f Bol st =
     (case consumed st of [] \<Rightarrow> [st]
      | b # _ \<Rightarrow> if multiline f \<and> isLineTerminator b then [st] else [])"
| "run f Eol st =
     (case rest st of [] \<Rightarrow> [st]
      | a # _ \<Rightarrow> if multiline f \<and> isLineTerminator a then [st] else [])"
| "run f WordB st = (if atWordBoundary st then [st] else [])"
| "run f Eps st = [st]"
| "run f (Seq r1 r2) st = concat (map (run f r2) (run f r1 st))"
| "run f (Alt r1 r2) st = run f r1 st @ run f r2 st"
| "run f (Star greedy r) st =
     (if greedy
      then concat (map (\<lambda>st'. if length (rest st') < length (rest st)
                               then run f (Star greedy r) st' else []) (run f r st)) @ [st]
      else st # concat (map (\<lambda>st'. if length (rest st') < length (rest st)
                                    then run f (Star greedy r) st' else []) (run f r st)))"
| "run f (Grp n r) st =
     map (\<lambda>st'. MSt (consumed st') (rest st') ((n, captured st st') # caps st')) (run f r st)"
  by pat_completeness auto
termination
  by (relation "inv_image (less_than <*lex*> less_than)
                  (\<lambda>(f, r, st). (size r, length (rest st)))") auto

definition lits :: "string \<Rightarrow> rx" where
  "lits s = foldr (\<lambda>c r. Seq (Lit c) r) s Eps"

definition seqs :: "rx list \<Rightarrow> rx" where
  "seqs rs = foldr Seq rs Eps"

fun alts :: "rx list \<Rightarrow> rx" where
  "alts [] = Cls False []"
| "alts [r] = r"
| "alts (r # rs) = Alt r (alts rs)"

definition Plus :: "bool \<Rightarrow> rx \<Rightarrow> rx" where
  "Plus greedy r = Seq r (Star greedy r)"

definition Opt :: "rx \<Rightarrow> rx" where
  "Opt r = Alt r Eps"

definition rxWord :: rx where "rxWord = Cls False [CWord]"
definition rxSpace :: rx where "rxSpace = Cls False [CSpace]"
definition rxAny :: rx where "rxAny = Cls False [CSpace, CNonSpace]"
definition rxNonSpace :: rx where "rxNonSpace = Cls False [CNonSpace]"

text \<open>
  Unanchored search: the leftmost position where the expression matches. The result is the
  (reversed) text before the match and the state after it.
\<close>

fun searchFrom :: "flags \<Rightarrow> rx \<Rightarrow> string \<Rightarrow> string \<Rightarrow> (string \<times> mst) option" where
  "searchFrom f r bef [] =
     (case run f r (MSt bef [] []) of [] \<Rightarrow> None | m # _ \<Rightarrow> Some (bef, m))"
| "searchFrom f r bef (x # xs) =
     (case run f r (MSt bef (x # xs) []) of
        [] \<Rightarrow> searchFrom f r (x # bef) xs
      | m # _ \<Rightarrow> Some (bef, m))"

text \<open>\<open>re.test(s)\<close> and \<open>s.match(re)\<close> for an expression without the global flag.\<close>

definition rxTest :: "flags \<Rightarrow> rx \<Rightarrow> string \<Rightarrow> bool" where
  "rxTest f r s = (searchFrom f r [] s \<noteq> None)"

definition rxMatch :: "flags \<Rightarrow> rx \<Rightarrow> string \<Rightarrow> mst option" where
  "rxMatch f r s = map_option snd (searchFrom f r [] s)"

text \<open>A capture group of a match; \<open>None\<close> is \<open>undefined\<close> (the group did not take part).\<close>

definition grp :: "mst \<Rightarrow> nat \<Rightarrow> string option" where
  "grp m n = map_of (caps m) n"


text \<open>
  \<open>s.replace(re, '')\<close> with the global flag: after a match the scan resumes where the match
  ended; after an empty match it steps over one character.
\<close>

function removeAllFrom :: "flags \<Rightarrow> rx \<Rightarrow> string \<Rightarrow> string \<Rightarrow> string" where
  "removeAllFrom f r bef s =
     (case searchFrom f r bef s of
        None \<Rightarrow> s
      | Some (pre, m) \<Rightarrow>
          rev (take (length pre - length bef) pre) @
          (if length (rest m) < length s then removeAllFrom f r (consumed m) (rest m)
           else (case s of [] \<Rightarrow> [] | c # cs \<Rightarrow> c # removeAllFrom f r (c # bef) cs)))"
  by pat_completeness auto
termination
  by (relation "measure (\<lambda>(f, r, bef, s). length s)") auto

definition removeAll :: "flags \<Rightarrow> rx \<Rightarrow> string \<Rightarrow> string" where
  "removeAll f r s = removeAllFrom f r [] s"

text \<open>The loop \<open>while ((m = re.exec(s)) !== null)\<close> over an expression with the global flag.\<close>

function execAllFrom :: "flags \<Rightarrow> rx \<Rightarrow> string \<Rightarrow> string \<Rightarrow> mst list" where
  "execAllFrom f r bef s =
     (case searchFrom f r bef s of
        None \<Rightarrow> []
      | Some (pre, m) \<Rightarrow>
          m # (if length (rest m) < length s then execAllFrom f r (consumed m) (rest m)
               else (case s of [] \<Rightarrow> [] | c # cs \<Rightarrow> execAllFrom f r (c # bef) cs)))"
  by pat_completeness auto
termination
  by (relation "measure (\<lambda>(f, r, bef, s). length s)") auto

declare removeAllFrom.simps [simp del] execAllFrom.simps [simp del]

section \<open>Objects used as dictionaries\<close>

text \<open>
  \<open>directive.styles\<close> and the lookup tables are plain objects indexed by arbitrary strings.
  Reading \<open>obj[k]\<close> finds an own property first and otherwise a member inherited from the
  object prototype, which is a function or object and hence truthy; writing
  \<open>obj['__proto__'] = s\<close> with a string \<open>s\<close> stores nothing.
\<close>

type_synonym 'v jsobj = "(string \<times> 'v) list"

datatype 'v jsprop = Own 'v | Inherited string

definition objectPrototypeKeys :: "string list" where
  "objectPrototypeKeys =
     [''constructor'', ''__proto__'', ''hasOwnProperty'', ''isPrototypeOf'',
      ''propertyIsEnumerable'', ''toLocaleString'', ''toString'', ''valueOf'',
      ''__defineGetter__'', ''__defineSetter__'', ''__lookupGetter__'', ''__lookupSetter__'']"

definition getProp :: "'v jsobj \<Rightarrow> string \<Rightarrow> 'v jsprop option" where
  "getProp obj k =
     (case map_of obj k of
        Some v \<Rightarrow> Some (Own v)
      | None \<Rightarrow> if k \<in> set objectPrototypeKeys then Some (Inherited k) else None)"

definition setProp :: "string \<Rightarrow> 'v \<Rightarrow> 'v jsobj \<Rightarrow> 'v jsobj" where
  "setProp k v obj = (if k = ''__proto__'' then obj else AList.update k v obj)"

section \<open>Types (types/index.ts)\<close>

datatype StyleType =
    Ui | Api | Db | Cache | Queue | Gateway | External | Agent | Storage | User
  | Orchestrator | Problem | Solution | Highlight | Group

text \<open>
  What a \<open>styleType\<close> field holds at run time: a style name, or a member of the object
  prototype that a lookup under an inherited key returned.
\<close>

datatype styleval = Style StyleType | ProtoMember string

definition styleOfProp :: "StyleType jsprop \<Rightarrow> styleval" where
  "styleOfProp p = (case p of Own s \<Rightarrow> Style s | Inherited k \<Rightarrow> ProtoMember k)"

record StyleColors =
  sc_backgroundColor :: string
  sc_strokeColor :: string

record ExcaliDirective =
  dir_theme :: "string option"
  dir_styles :: "StyleType jsobj"

datatype NodeShape = Rectangle | Cylinder | Stadium | Hexagon | Ellipse | Diamond

datatype LineStyle = Solid | Dashed

datatype ArrowType = ArrowHead | NoHead | BothHeads

datatype DiagramType = Flowchart | Sequence | ER | ClassDiagram

datatype Direction = DirTD | DirTB | DirLR | DirRL | DirBT

record ParsedNode =
  pn_id :: string
  pn_label :: string
  pn_shape :: NodeShape
  pn_styleType :: "styleval option"

record ParsedEdge =
  pe_source :: string
  pe_target :: string
  pe_label :: "string option"
  pe_arrowType :: ArrowType
  pe_lineStyle :: "LineStyle option"

record ParsedSubgraph =
  sg_id :: string
  sg_label :: string
  sg_nodes :: "string list"
  sg_styleType :: "styleval option"

record ParsedDiagram =
  d_type :: DiagramType
  d_direction :: Direction
  d_nodes :: "ParsedNode list"
  d_edges :: "ParsedEdge list"
  d_subgraphs :: "ParsedSubgraph list"
  d_directive :: ExcaliDirective
  d_rawMermaid :: string

section \<open>Directive extractor (parser/directive.ts)\<close>

definition styleNames :: "(string \<times> StyleType) list" where
  "styleNames =
     [(''ui'', Ui), (''api'', Api), (''db'', Db), (''cache'', Cache), (''queue'', Queue),
      (''gateway'', Gateway), (''external'', External), (''agent'', Agent),
      (''storage'', Storage), (''user'', User), (''orchestrator'', Orchestrator),
      (''problem'', Problem), (''solution'', Solution), (''highlight'', Highlight),
      (''group'', Group)]"

text \<open>\<open>VALID_STYLES.has(s)\<close> together with the cast \<open>s as StyleType\<close>.\<close>

definition VALID_STYLES :: "string \<Rightarrow> StyleType option" where
  "VALID_STYLES s = map_of styleNames s"

text \<open>\<open>/%%\{excali:/\<close>\<close>

definition rxDirectiveOpen :: rx where
  "rxDirectiveOpen = lits ''%%{excali:''"

text \<open>\<open>/%%\{excali:\s*([\s\S]*?)\}%%/\<close>\<close>

definition rxDirective :: rx where
  "rxDirective =
     Seq rxDirectiveOpen (seqs [Star True rxSpace, Grp 1 (Star False rxAny), lits ''}%%''])"

text \<open>\<open>/theme:\s*(\w+)/\<close>\<close>

definition rxTheme :: rx where
  "rxTheme = seqs [lits ''theme:'', Star True rxSpace, Grp 1 (Plus True rxWord)]"

text \<open>\<open>/styles:\s*\{([^}]+)\}/\<close>\<close>

definition rxStyles :: rx where
  "rxStyles =
     seqs [lits ''styles:'', Star True rxSpace, Lit CHR ''{'',
           Grp 1 (Plus True (Cls True [CChar CHR ''}''])), Lit CHR ''}'']"

text \<open>\<open>/(\w+):\s*(\w+)/g\<close>\<close>

definition rxPair :: rx where
  "rxPair =
     seqs [Grp 1 (Plus True rxWord), Lit CHR '':'', Star True rxSpace, Grp 2 (Plus True rxWord)]"

fun addStylePairs :: "mst list \<Rightarrow> StyleType jsobj \<Rightarrow> StyleType jsobj" where
  "addStylePairs [] obj = obj"
| "addStylePairs (m # ms) obj =
     (case (grp m 1, grp m 2) of
        (Some nodeId, Some styleType) \<Rightarrow>
          (case VALID_STYLES styleType of
             Some st \<Rightarrow> addStylePairs ms (setProp nodeId st obj)
           | None \<Rightarrow> addStylePairs ms obj)
      | _ \<Rightarrow> addStylePairs ms obj)"

definition parseExcaliDirective :: "string \<Rightarrow> ExcaliDirective" where
  "parseExcaliDirective mermaidSource =
     (case rxMatch noFlags rxDirective mermaidSource of
        None \<Rightarrow> \<lparr>dir_theme = None, dir_styles = []\<rparr>
      | Some directiveMatch \<Rightarrow>
          (let content = trim (case grp directiveMatch 1 of Some c \<Rightarrow> c | None \<Rightarrow> []);
               th = (case rxMatch noFlags rxTheme content of
                       None \<Rightarrow> None | Some themeMatch \<Rightarrow> grp themeMatch 1);
               sty = (case rxMatch noFlags rxStyles content of
                        None \<Rightarrow> []
                      | Some stylesMatch \<Rightarrow>
                          addStylePairs
                            (execAllFrom noFlags rxPair []
                               (case grp stylesMatch 1 of Some c \<Rightarrow> c | None \<Rightarrow> [])) [])
           in \<lparr>dir_theme = th, dir_styles = sty\<rparr>))"

text \<open>\<open>/%%\{excali:[\s\S]*?\}%%\s*/g\<close>\<close>

definition rxDirectiveStrip :: rx where
  "rxDirectiveStrip =
     Seq rxDirectiveOpen (seqs [Star False rxAny, lits ''}%%'', Star True rxSpace])"

definition stripExcaliDirective :: "string \<Rightarrow> string" where
  "stripExcaliDirective mermaidSource = trim (removeAll noFlags rxDirectiveStrip mermaidSource)"


section \<open>Style resolver (converter/styles.ts)\<close>

fun COLOR_PALETTE :: "StyleType \<Rightarrow> StyleColors" where
  "COLOR_PALETTE Ui = \<lparr>sc_backgroundColor = ''#a5d8ff'', sc_strokeColor = ''#1971c2''\<rparr>"
| "COLOR_PALETTE Api = \<lparr>sc_backgroundColor = ''#d0bfff'', sc_strokeColor = ''#7048e8''\<rparr>"
| "COLOR_PALETTE Db = \<lparr>sc_backgroundColor = ''#b2f2bb'', sc_strokeColor = ''#2f9e44''\<rparr>"
| "COLOR_PALETTE Cache = \<lparr>sc_backgroundColor = ''#ffe8cc'', sc_strokeColor = ''#fd7e14''\<rparr>"
| "COLOR_PALETTE Queue = \<lparr>sc_backgroundColor = ''#fff3bf'', sc_strokeColor = ''#fab005''\<rparr>"
| "COLOR_PALETTE Gateway = \<lparr>sc_backgroundColor = ''#dee2e6'', sc_strokeColor = ''#495057''\<rparr>"
| "COLOR_PALETTE External = \<lparr>sc_backgroundColor = ''#ffc9c9'', sc_strokeColor = ''#e03131''\<rparr>"
| "COLOR_PALETTE Agent = \<lparr>sc_backgroundColor = ''#e599f7'', sc_strokeColor = ''#9c36b5''\<rparr>"
| "COLOR_PALETTE Storage = \<lparr>sc_backgroundColor = ''#ffec99'', sc_strokeColor = ''#f08c00''\<rparr>"
| "COLOR_PALETTE User = \<lparr>sc_backgroundColor = ''#e7f5ff'', sc_strokeColor = ''#1971c2''\<rparr>"
| "COLOR_PALETTE Orchestrator = \<lparr>sc_backgroundColor = ''#ffa8a8'', sc_strokeColor = ''#c92a2a''\<rparr>"
| "COLOR_PALETTE Problem = \<lparr>sc_backgroundColor = ''#ffc9c9'', sc_strokeColor = ''#c92a2a''\<rparr>"
| "COLOR_PALETTE Solution = \<lparr>sc_backgroundColor = ''#b2f2bb'', sc_strokeColor = ''#087f5b''\<rparr>"
| "COLOR_PALETTE Highlight = \<lparr>sc_backgroundColor = ''#e5dbff'', sc_strokeColor = ''#5f3dc4''\<rparr>"
| "COLOR_PALETTE Group = \<lparr>sc_backgroundColor = ''transparent'', sc_strokeColor = ''#868e96''\<rparr>"

definition DEFAULT_STYLE :: StyleColors where
  "DEFAULT_STYLE = \<lparr>sc_backgroundColor = ''#e9ecef'', sc_strokeColor = ''#495057''\<rparr>"

text \<open>\<open>/\b(w1|w2|...)\b/i\<close>\<close>

definition rxKeywords :: "rx list \<Rightarrow> rx" where
  "rxKeywords ws = seqs [WordB, Grp 1 (alts ws), WordB]"

definition SEMANTIC_PATTERNS :: "(rx \<times> StyleType) list" where
  "SEMANTIC_PATTERNS =
     [(rxKeywords (map lits [''database'', ''db'', ''postgres'', ''mysql'', ''mongo'', ''sqlite'',
                             ''dynamo'']), Db),
      (rxKeywords (map lits [''redis'', ''cache'', ''memcache'']), Cache),
      (rxKeywords (map lits [''queue'', ''kafka'', ''rabbit'', ''sqs'', ''pubsub'']), Queue),
      (rxKeywords (map lits [''api'', ''service'', ''backend'', ''server'']), Api),
      (rxKeywords (map lits [''ui'', ''frontend'', ''react'', ''vue'', ''angular'', ''client'',
                             ''app'']), Ui),
      (rxKeywords (map lits [''gateway'', ''router'', ''proxy'', ''nginx'', ''kong'']), Gateway),
      (rxKeywords [lits ''external'', seqs [lits ''third'', Opt Dot, lits ''party''],
                   lits ''vendor''], External),
      (rxKeywords (map lits [''ai'', ''ml'', ''agent'', ''llm'', ''gpt'', ''claude'']), Agent),
      (rxKeywords (map lits [''storage'', ''s3'', ''blob'', ''file'']), Storage),
      (rxKeywords (map lits [''user'', ''actor'', ''client'', ''customer'']), User),
      (rxKeywords [lits ''orchestrat'', lits ''workflow'',
                   seqs [lits ''step'', Opt Dot, lits ''function'']], Orchestrator)]"

definition SHAPE_STYLES :: "StyleType jsobj" where
  "SHAPE_STYLES = [(''cylinder'', Db), (''stadium'', Cache), (''hexagon'', Orchestrator)]"

definition getStyleColors :: "styleval option \<Rightarrow> StyleColors" where
  "getStyleColors styleType =
     (case styleType of
        None \<Rightarrow> DEFAULT_STYLE
      | Some (Style s) \<Rightarrow> COLOR_PALETTE s
      | Some (ProtoMember k) \<Rightarrow> DEFAULT_STYLE)"

fun firstPattern :: "(rx \<times> StyleType) list \<Rightarrow> string \<Rightarrow> StyleType option" where
  "firstPattern [] label = None"
| "firstPattern ((pattern, style) # ps) label =
     (if rxTest flagI pattern label then Some style else firstPattern ps label)"

definition inferStyleFromLabel :: "string \<Rightarrow> StyleType option" where
  "inferStyleFromLabel label = firstPattern SEMANTIC_PATTERNS label"

definition inferStyleFromShape :: "string \<Rightarrow> styleval option" where
  "inferStyleFromShape shape = map_option styleOfProp (getProp SHAPE_STYLES shape)"

definition resolveStyle ::
  "string \<Rightarrow> string \<Rightarrow> string \<Rightarrow> StyleType jsobj \<Rightarrow> styleval option" where
  "resolveStyle nodeId label shape explicitStyles =
     (case getProp explicitStyles nodeId of
        Some p \<Rightarrow> Some (styleOfProp p)
      | None \<Rightarrow>
          (case inferStyleFromShape shape of
             Some shapeStyle \<Rightarrow> Some shapeStyle
           | None \<Rightarrow> map_option Style (inferStyleFromLabel label)))"

section \<open>Dialect detector (index.ts)\<close>

datatype jsError = RangeError | TypeError








subsection \<open>The detector as the specification words it\<close>





subsection \<open>What the expressions of the detector accept, in words\<close>








section \<open>Sequence parser (parser/sequence.ts)\<close>

datatype ParticipantType = Participant | Actor

datatype MessageType = MsgSolid | MsgDashed | MsgSolidOpen | MsgDashedOpen

record SequenceParticipant =
  sp_id :: string
  sp_alias :: "string option"
  sp_label :: string
  sp_type :: ParticipantType

record SequenceMessage =
  sm_from :: string
  sm_to :: string
  sm_label :: string
  sm_type :: MessageType

text \<open>
  \<open>source.split('\n').map(l => l.trim()).filter(l => l && !l.startsWith('%%'))\<close>
\<close>

definition sourceLines :: "string \<Rightarrow> string list" where
  "sourceLines src = filter (\<lambda>l. l \<noteq> [] \<and> \<not> startsWith l ''%%'') (map trim (splitLines src))"

text \<open>\<open>/^(participant|actor)\s+(\w+)(?:\s+as\s+(.+))?$/\<close>\<close>

definition rxParticipant :: rx where
  "rxParticipant =
     seqs [Bol, Grp 1 (Alt (lits ''participant'') (lits ''actor'')), Plus True rxSpace,
           Grp 2 (Plus True rxWord),
           Opt (seqs [Plus True rxSpace, lits ''as'', Plus True rxSpace, Grp 3 (Plus True Dot)]),
           Eol]"

text \<open>\<open>/^(\w+)\s*(--?>>?[+-]?|--?>[+-]?|--?x[+-]?)\s*(\w+)\s*:\s*(.*)$/\<close>\<close>

definition rxPlusMinus :: rx where
  "rxPlusMinus = Opt (Cls False [CChar CHR ''+'', CChar CHR ''-''])"

definition rxMessage :: rx where
  "rxMessage =
     seqs [Bol, Grp 1 (Plus True rxWord), Star True rxSpace,
           Grp 2 (alts
             [seqs [Lit CHR ''-'', Opt (Lit CHR ''-''), Lit CHR ''>'', Opt (Lit CHR ''>''), rxPlusMinus],
              seqs [Lit CHR ''-'', Opt (Lit CHR ''-''), Lit CHR ''>'', rxPlusMinus],
              seqs [Lit CHR ''-'', Opt (Lit CHR ''-''), Lit CHR ''x'', rxPlusMinus]]),
           Star True rxSpace, Grp 3 (Plus True rxWord), Star True rxSpace, Lit CHR '':'',
           Star True rxSpace, Grp 4 (Star True Dot), Eol]"

text \<open>A capture group that took part in the match; the expressions above always fill it.\<close>

definition grpStr :: "mst \<Rightarrow> nat \<Rightarrow> string" where
  "grpStr m n = (case grp m n of Some s \<Rightarrow> s | None \<Rightarrow> [])"

record SequenceState =
  ss_participants :: "SequenceParticipant list"
  ss_messages :: "SequenceMessage list"
  ss_participantOrder :: "string list"

definition addImplicit :: "string \<Rightarrow> SequenceState \<Rightarrow> SequenceState" where
  "addImplicit pid st =
     (if pid \<in> set (ss_participantOrder st) then st
      else st\<lparr>ss_participantOrder := ss_participantOrder st @ [pid],
              ss_participants := ss_participants st @
                [\<lparr>sp_id = pid, sp_alias = None, sp_label = pid, sp_type = Participant\<rparr>]\<rparr>)"

definition sequenceLine :: "string \<Rightarrow> SequenceState \<Rightarrow> SequenceState" where
  "sequenceLine line st =
     (if startsWith line ''sequenceDiagram'' then st
      else case rxMatch noFlags rxParticipant line of
        Some participantMatch \<Rightarrow>
          (let ty = grpStr participantMatch 1;
               pid = grpStr participantMatch 2;
               alias = map_option trim (grp participantMatch 3);
               st1 = st\<lparr>ss_participants := ss_participants st @
                        [\<lparr>sp_id = pid, sp_alias = alias,
                          sp_label = (case alias of None \<Rightarrow> pid
                                      | Some a \<Rightarrow> if a = [] then pid else a),
                          sp_type = (if ty = ''actor'' then Actor else Participant)\<rparr>]\<rparr>
           in if pid \<in> set (ss_participantOrder st1) then st1
              else st1\<lparr>ss_participantOrder := ss_participantOrder st1 @ [pid]\<rparr>)
      | None \<Rightarrow>
          (case rxMatch noFlags rxMessage line of
             Some messageMatch \<Rightarrow>
               (let from = grpStr messageMatch 1;
                    arrow = grpStr messageMatch 2;
                    to = grpStr messageMatch 3;
                    label = grpStr messageMatch 4;
                    st1 = addImplicit to (addImplicit from st);
                    isDashed = includesStr arrow ''--'';
                    isOpen = (\<not> includesStr arrow ''>>'')
                in st1\<lparr>ss_messages := ss_messages st1 @
                      [\<lparr>sm_from = from, sm_to = to, sm_label = trim label,
                        sm_type = (if isDashed then (if isOpen then MsgDashedOpen else MsgDashed)
                                   else (if isOpen then MsgSolidOpen else MsgSolid))\<rparr>]\<rparr>)
           | None \<Rightarrow> st))"

definition sequenceLoop :: "string list \<Rightarrow> SequenceState" where
  "sequenceLoop ls =
     fold sequenceLine ls \<lparr>ss_participants = [], ss_messages = [], ss_participantOrder = []\<rparr>"

definition inferParticipantStyle :: "string \<Rightarrow> StyleType option" where
  "inferParticipantStyle label =
     (let lower = toLowerCase label in
      if includesStr lower ''user'' \<or> includesStr lower ''client'' \<or> includesStr lower ''actor''
        then Some User
      else if includesStr lower ''api'' \<or> includesStr lower ''service'' \<or> includesStr lower ''backend''
        then Some Api
      else if includesStr lower ''db'' \<or> includesStr lower ''database'' then Some Db
      else if includesStr lower ''cache'' \<or> includesStr lower ''redis'' then Some Cache
      else if includesStr lower ''queue'' \<or> includesStr lower ''kafka'' then Some Queue
      else if includesStr lower ''gateway'' \<or> includesStr lower ''proxy'' then Some Gateway
      else if includesStr lower ''external'' \<or> includesStr lower ''third'' then Some External
      else None)"

definition participantNode :: "ExcaliDirective \<Rightarrow> SequenceParticipant \<Rightarrow> ParsedNode" where
  "participantNode dir p =
     \<lparr>pn_id = sp_id p, pn_label = sp_label p,
      pn_shape = (if sp_type p = Actor then Ellipse else Rectangle),
      pn_styleType = (case getProp (dir_styles dir) (sp_id p) of
                        Some v \<Rightarrow> Some (styleOfProp v)
                      | None \<Rightarrow> map_option Style (inferParticipantStyle (sp_label p)))\<rparr>"

definition messageEdge :: "SequenceMessage \<Rightarrow> ParsedEdge" where
  "messageEdge m =
     \<lparr>pe_source = sm_from m, pe_target = sm_to m, pe_label = Some (sm_label m),
      pe_arrowType = ArrowHead,
      pe_lineStyle = Some (if sm_type m = MsgDashed \<or> sm_type m = MsgDashedOpen
                           then Dashed else Solid)\<rparr>"

definition parseSequenceDiagram :: "string \<Rightarrow> ParsedDiagram" where
  "parseSequenceDiagram mermaidSource =
     (let dir = parseExcaliDirective mermaidSource;
          st = sequenceLoop (sourceLines mermaidSource)
      in \<lparr>d_type = Sequence, d_direction = DirLR,
          d_nodes = map (participantNode dir) (ss_participants st),
          d_edges = map messageEdge (ss_messages st),
          d_subgraphs = [], d_directive = dir, d_rawMermaid = mermaidSource\<rparr>)"

section \<open>Entity-relationship parser (parser/er.ts)\<close>

record ERAttribute =
  at_type :: string
  at_name :: string
  at_keys :: "string list"

record EREntity =
  en_name :: string
  en_attributes :: "ERAttribute list"

record ERRelationship =
  rel_entity1 :: string
  rel_entity2 :: string
  rel_cardinality1 :: string
  rel_cardinality2 :: string
  rel_label :: "string option"

text \<open>
  \<open>entities\<close> is a \<open>Map\<close>: an association list in insertion order, a key set again keeps
  its place. \<open>currentEntity\<close> is a reference to the entity object that the map holds, so a
  push to its attribute list is a change of the map entry; the model keeps the entry's key.
\<close>

record ERState =
  es_entities :: "(string \<times> EREntity) list"
  es_relationships :: "ERRelationship list"
  es_currentEntity :: "string option"
  es_inEntityBlock :: bool

text \<open>\<open>/^(\w+)\s*\{$/\<close>\<close>

definition rxEntityStart :: rx where
  "rxEntityStart = seqs [Bol, Grp 1 (Plus True rxWord), Star True rxSpace, Lit CHR ''{'', Eol]"

text \<open>\<open>/^(\w+)\s+(\w+)(?:\s+(PK|FK|UK))?$/\<close>\<close>

definition rxAttribute :: rx where
  "rxAttribute =
     seqs [Bol, Grp 1 (Plus True rxWord), Plus True rxSpace, Grp 2 (Plus True rxWord),
           Opt (seqs [Plus True rxSpace, Grp 3 (alts [lits ''PK'', lits ''FK'', lits ''UK''])]),
           Eol]"

text \<open>
  \<open>/^(\w+)\s*(\|[|o]|o[|o]|\}[|o]|\|[\{]|\}[\{]|o[\{])--(\|[|o]|o[|o]|\}[|o]|[\|][\}]|[\{][\|]|[\{]o)\s*(\w+)(?:\s*:\s*(.+))?$/\<close>
\<close>

definition rxBarOrO :: rx where
  "rxBarOrO = Cls False [CChar CHR ''|'', CChar CHR ''o'']"

definition rxRelationship :: rx where
  "rxRelationship =
     seqs [Bol, Grp 1 (Plus True rxWord), Star True rxSpace,
           Grp 2 (alts [Seq (Lit CHR ''|'') rxBarOrO, Seq (Lit CHR ''o'') rxBarOrO,
                        Seq (Lit CHR ''}'') rxBarOrO, lits ''|{'', lits ''}{'', lits ''o{'']),
           lits ''--'',
           Grp 3 (alts [Seq (Lit CHR ''|'') rxBarOrO, Seq (Lit CHR ''o'') rxBarOrO,
                        Seq (Lit CHR ''}'') rxBarOrO, lits ''|}'', lits ''{|'', lits ''{o'']),
           Star True rxSpace, Grp 4 (Plus True rxWord),
           Opt (seqs [Star True rxSpace, Lit CHR '':'', Star True rxSpace, Grp 5 (Plus True Dot)]),
           Eol]"

text \<open>\<open>/^(\w+)\s+\S+\s+(\w+)(?:\s*:\s*(.+))?$/\<close>\<close>

definition rxSimpleRelationship :: rx where
  "rxSimpleRelationship =
     seqs [Bol, Grp 1 (Plus True rxWord), Plus True rxSpace, Plus True rxNonSpace,
           Plus True rxSpace, Grp 2 (Plus True rxWord),
           Opt (seqs [Star True rxSpace, Lit CHR '':'', Star True rxSpace, Grp 3 (Plus True Dot)]),
           Eol]"

definition ensureEntity :: "string \<Rightarrow> (string \<times> EREntity) list \<Rightarrow> (string \<times> EREntity) list" where
  "ensureEntity name ents =
     (if map_of ents name \<noteq> None then ents
      else AList.update name \<lparr>en_name = name, en_attributes = []\<rparr> ents)"

definition addRelationship ::
  "string \<Rightarrow> string \<Rightarrow> string \<Rightarrow> string \<Rightarrow> string option \<Rightarrow> ERState \<Rightarrow> ERState" where
  "addRelationship entity1 entity2 card1 card2 label st =
     st\<lparr>es_entities := ensureEntity entity2 (ensureEntity entity1 (es_entities st)),
        es_relationships := es_relationships st @
          [\<lparr>rel_entity1 = entity1, rel_entity2 = entity2, rel_cardinality1 = card1,
            rel_cardinality2 = card2, rel_label = map_option trim label\<rparr>]\<rparr>"

definition erLine :: "string \<Rightarrow> ERState \<Rightarrow> ERState" where
  "erLine line st =
     (if startsWith line ''erDiagram'' then st
      else case rxMatch noFlags rxEntityStart line of
        Some entityStartMatch \<Rightarrow>
          (let name = grpStr entityStartMatch 1;
               currentEntity = (case map_of (es_entities st) name of
                                  Some e \<Rightarrow> e
                                | None \<Rightarrow> \<lparr>en_name = name, en_attributes = []\<rparr>)
           in st\<lparr>es_entities := AList.update name currentEntity (es_entities st),
                 es_currentEntity := Some name, es_inEntityBlock := True\<rparr>)
      | None \<Rightarrow>
          if line = ''}'' then st\<lparr>es_currentEntity := None, es_inEntityBlock := False\<rparr>
          else if es_inEntityBlock st \<and> es_currentEntity st \<noteq> None then
            (case rxMatch noFlags rxAttribute line of
               Some attrMatch \<Rightarrow>
                 (let attr = \<lparr>at_type = grpStr attrMatch 1, at_name = grpStr attrMatch 2,
                              at_keys = (case grp attrMatch 3 of
                                           Some key \<Rightarrow> if key = [] then [] else [key]
                                         | None \<Rightarrow> [])\<rparr>
                  in st\<lparr>es_entities :=
                          map (\<lambda>(k, e). if Some k = es_currentEntity st
                                         then (k, e\<lparr>en_attributes := en_attributes e @ [attr]\<rparr>)
                                         else (k, e)) (es_entities st)\<rparr>)
             | None \<Rightarrow> st)
          else
            (case rxMatch noFlags rxRelationship line of
               Some relMatch \<Rightarrow>
                 addRelationship (grpStr relMatch 1) (grpStr relMatch 4) (grpStr relMatch 2)
                   (grpStr relMatch 3) (grp relMatch 5) st
             | None \<Rightarrow>
                 (case rxMatch noFlags rxSimpleRelationship line of
                    Some simpleRelMatch \<Rightarrow>
                      addRelationship (grpStr simpleRelMatch 1) (grpStr simpleRelMatch 2)
                        ''||'' ''o{'' (grp simpleRelMatch 3) st
                  | None \<Rightarrow> st)))"

definition erLoop :: "string list \<Rightarrow> ERState" where
  "erLoop ls =
     fold erLine ls
       \<lparr>es_entities = [], es_relationships = [], es_currentEntity = None,
        es_inEntityBlock = False\<rparr>"

definition formatEntityLabel :: "EREntity \<Rightarrow> string" where
  "formatEntityLabel entity =
     (if en_attributes entity = [] then en_name entity
      else en_name entity @ [CHR 0x0A] @
           joinWith [CHR 0x0A]
             (map (\<lambda>a. ''- '' @ at_name a @ '': '' @ at_type a @
                        (if at_keys a \<noteq> [] then '' ['' @ joinWith '','' (at_keys a) @ '']'' else []))
                  (en_attributes entity)))"

text \<open>
  The cardinality strings are the two-character tokens the expressions admit, or the two
  constants of the fallback; none of them names an inherited member of the table object.
\<close>

definition cardMap :: "(string \<times> string) list" where
  "cardMap =
     [(''||'', ''1''), (''|o'', ''0..1''), (''o|'', ''0..1''), (''oo'', ''0..1''), (''}|'', ''n''),
      (''|{'', ''n''), (''}{'', ''n''), (''}o'', ''0..n''), (''o{'', ''0..n'')]"

definition formatCardinality :: "string \<Rightarrow> string \<Rightarrow> string" where
  "formatCardinality card1 card2 =
     (let left = (case map_of cardMap card1 of Some t \<Rightarrow> t | None \<Rightarrow> card1);
          right = (case map_of cardMap card2 of Some t \<Rightarrow> t | None \<Rightarrow> card2)
      in left @ '':'' @ right)"

definition entityNode :: "ExcaliDirective \<Rightarrow> EREntity \<Rightarrow> ParsedNode" where
  "entityNode dir e =
     \<lparr>pn_id = en_name e, pn_label = formatEntityLabel e, pn_shape = Rectangle,
      pn_styleType = (case getProp (dir_styles dir) (en_name e) of
                        Some v \<Rightarrow> Some (styleOfProp v)
                      | None \<Rightarrow> Some (Style Db))\<rparr>"

definition relationshipEdge :: "ERRelationship \<Rightarrow> ParsedEdge" where
  "relationshipEdge r =
     \<lparr>pe_source = rel_entity1 r, pe_target = rel_entity2 r,
      pe_label = Some (case rel_label r of
                         Some l \<Rightarrow> if l = [] then formatCardinality (rel_cardinality1 r) (rel_cardinality2 r)
                                   else l
                       | None \<Rightarrow> formatCardinality (rel_cardinality1 r) (rel_cardinality2 r)),
      pe_arrowType = ArrowHead, pe_lineStyle = None\<rparr>"

definition parseERDiagram :: "string \<Rightarrow> ParsedDiagram" where
  "parseERDiagram mermaidSource =
     (let dir = parseExcaliDirective mermaidSource;
          st = erLoop (sourceLines mermaidSource)
      in \<lparr>d_type = ER, d_direction = DirLR,
          d_nodes = map (entityNode dir) (map snd (es_entities st)),
          d_edges = map relationshipEdge (es_relationships st),
          d_subgraphs = [], d_directive = dir, d_rawMermaid = mermaidSource\<rparr>)"

section \<open>Flowchart parser (parser/flowchart.ts)\<close>

record RawNode =
  rn_id :: string
  rn_label :: string
  rn_shape :: NodeShape

record RawEdge =
  re_source :: string
  re_target :: string
  re_label :: "string option"

record RawSubgraph =
  rs_id :: string
  rs_label :: string
  rs_nodes :: "string list"

text \<open>\<open>[A-Za-z_][A-Za-z0-9_]*\<close>\<close>

definition rxIdent :: rx where
  "rxIdent =
     Seq (Cls False [CRange CHR ''A'' CHR ''Z'', CRange CHR ''a'' CHR ''z'', CChar CHR ''_''])
         (Star True (Cls False [CRange CHR ''A'' CHR ''Z'', CRange CHR ''a'' CHR ''z'',
                                CRange CHR ''0'' CHR ''9'', CChar CHR ''_'']))"

text \<open>\<open>SHAPE_PATTERNS\<close>, in the order of the source; the label is group 1 of each.\<close>

definition shapePattern :: "string \<Rightarrow> string \<Rightarrow> rx" where
  "shapePattern opening closing = seqs [lits opening, Grp 1 (Plus False Dot), lits closing]"

definition SHAPE_PATTERNS :: "(rx \<times> NodeShape) list" where
  "SHAPE_PATTERNS =
     [(shapePattern ''[('' '')]'', Cylinder),
      (shapePattern ''(['' ''])'', Stadium),
      (shapePattern ''{{'' ''}}'', Hexagon),
      (shapePattern ''(('' ''))'', Ellipse),
      (shapePattern ''{'' ''}'', Diamond),
      (shapePattern ''['' '']'', Rectangle),
      (shapePattern ''('' '')'', Ellipse)]"

text \<open>\<open>/(?:flowchart|graph)\s+(TD|TB|LR|RL|BT)/i\<close>\<close>

definition rxDirection :: rx where
  "rxDirection =
     seqs [Alt (lits ''flowchart'') (lits ''graph''), Plus True rxSpace,
           Grp 1 (alts [lits ''TD'', lits ''TB'', lits ''LR'', lits ''RL'', lits ''BT''])]"

definition parseDirection :: "string \<Rightarrow> Direction" where
  "parseDirection headerLine =
     (case rxMatch flagI rxDirection headerLine of
        None \<Rightarrow> DirTD
      | Some m \<Rightarrow>
          (let d = toUpperCase (grpStr m 1)
           in if d = ''TB'' then DirTB else if d = ''LR'' then DirLR
              else if d = ''RL'' then DirRL else if d = ''BT'' then DirBT else DirTD))"

text \<open>\<open>/\b([A-Za-z_][A-Za-z0-9_]*)\s*(?:\[|\(|\{|$|-->|---)/g\<close>\<close>

definition rxNodePattern :: rx where
  "rxNodePattern =
     seqs [WordB, Grp 1 rxIdent, Star True rxSpace,
           alts [Lit CHR ''['', Lit CHR ''('', Lit CHR ''{'', Eol, lits ''-->'', lits ''---'']]"

definition extractNodeIds :: "string \<Rightarrow> string list" where
  "extractNodeIds line =
     filter (\<lambda>i. toLowerCase i \<notin> set [''subgraph'', ''end'', ''flowchart'', ''graph'', ''direction''])
       (map (\<lambda>m. grpStr m 1) (execAllFrom noFlags rxNodePattern [] line))"

text \<open>\<open>/^subgraph\s+(\w+)(?:\s*\[(.+?)\])?/\<close>\<close>

definition rxSubgraph :: rx where
  "rxSubgraph =
     seqs [Bol, lits ''subgraph'', Plus True rxSpace, Grp 1 (Plus True rxWord),
           Opt (seqs [Star True rxSpace, Lit CHR ''['', Grp 2 (Plus False Dot), Lit CHR '']''])]"

text \<open>
  The loop of \<open>parseSubgraphs\<close>. \<open>depth\<close> is a JavaScript number that an unmatched \<open>end\<close>
  takes below zero.
\<close>

record SubgraphState =
  sgs_subgraphs :: "RawSubgraph list"
  sgs_current :: "RawSubgraph option"
  sgs_depth :: int

definition subgraphLine :: "string \<Rightarrow> SubgraphState \<Rightarrow> SubgraphState" where
  "subgraphLine line st =
     (let trimmed = trim line
      in case rxMatch noFlags rxSubgraph trimmed of
           Some subgraphMatch \<Rightarrow>
             (if sgs_depth st = 0
              then st\<lparr>sgs_current :=
                        Some \<lparr>rs_id = grpStr subgraphMatch 1,
                              rs_label = (case grp subgraphMatch 2 of
                                            Some l \<Rightarrow> if l = [] then grpStr subgraphMatch 1 else l
                                          | None \<Rightarrow> grpStr subgraphMatch 1),
                              rs_nodes = []\<rparr>,
                      sgs_depth := sgs_depth st + 1\<rparr>
              else st\<lparr>sgs_depth := sgs_depth st + 1\<rparr>)
         | None \<Rightarrow>
             if trimmed = ''end'' then
               (case sgs_current st of
                  Some cur \<Rightarrow>
                    if sgs_depth st - 1 = 0
                    then st\<lparr>sgs_subgraphs := sgs_subgraphs st @ [cur], sgs_current := None,
                            sgs_depth := sgs_depth st - 1\<rparr>
                    else st\<lparr>sgs_depth := sgs_depth st - 1\<rparr>
                | None \<Rightarrow> st\<lparr>sgs_depth := sgs_depth st - 1\<rparr>)
             else
               (case sgs_current st of
                  Some cur \<Rightarrow>
                    if sgs_depth st = 1
                    then st\<lparr>sgs_current :=
                              Some (cur\<lparr>rs_nodes :=
                                           fold (\<lambda>i ns. if i \<in> set ns then ns else ns @ [i])
                                             (extractNodeIds trimmed) (rs_nodes cur)\<rparr>)\<rparr>
                    else st
                | None \<Rightarrow> st))"

definition parseSubgraphs :: "string \<Rightarrow> RawSubgraph list" where
  "parseSubgraphs source =
     sgs_subgraphs (fold subgraphLine (splitLines source)
                      \<lparr>sgs_subgraphs = [], sgs_current = None, sgs_depth = 0\<rparr>)"

text \<open>
  \<open>parseNodeDefinition\<close>. The head \<open>/^([A-Za-z_][A-Za-z0-9_]*)\s*/\<close> is matched anew for every
  shape pattern of the source loop, with the same outcome each time; the shape pattern is then
  searched in what follows the head. The last resort is \<open>/^([A-Za-z_][A-Za-z0-9_]*)$/\<close>.
\<close>

definition rxNodeHead :: rx where
  "rxNodeHead = seqs [Bol, Grp 1 rxIdent, Star True rxSpace]"

definition rxPlainNode :: rx where
  "rxPlainNode = seqs [Bol, Grp 1 rxIdent, Eol]"

fun firstShape :: "(rx \<times> NodeShape) list \<Rightarrow> string \<Rightarrow> string \<Rightarrow> RawNode option" where
  "firstShape [] nodeId remainder = None"
| "firstShape ((pattern, shape) # ps) nodeId remainder =
     (case rxMatch noFlags pattern remainder of
        Some shapeMatch \<Rightarrow>
          Some \<lparr>rn_id = nodeId, rn_label = trim (grpStr shapeMatch 1), rn_shape = shape\<rparr>
      | None \<Rightarrow> firstShape ps nodeId remainder)"

definition parseNodeDefinition :: "string \<Rightarrow> RawNode option" where
  "parseNodeDefinition text =
     (case (case rxMatch noFlags rxNodeHead text of
              None \<Rightarrow> None
            | Some m \<Rightarrow> firstShape SHAPE_PATTERNS (grpStr m 1) (rest m)) of
        Some node \<Rightarrow> Some node
      | None \<Rightarrow>
          (case rxMatch noFlags rxPlainNode text of
             Some plainMatch \<Rightarrow>
               Some \<lparr>rn_id = grpStr plainMatch 1, rn_label = grpStr plainMatch 1,
                     rn_shape = Rectangle\<rparr>
           | None \<Rightarrow> None))"

text \<open>
  \<open>parseEdgeLine\<close>, with the expression

  \<open>/^([A-Za-z_][A-Za-z0-9_]*)(\s*(?:\[.*?\]|\(.*?\)|\{.*?\})?)?\s*(-->|---)(?:\|(.+?)\|)?\s*([A-Za-z_][A-Za-z0-9_]*)(\s*(?:\[.*?\]|\(.*?\)|\{.*?\})?)?$/\<close>

  Groups 2 and 6 are optional and may match the empty text. JavaScript reports such a group
  as \<open>undefined\<close>, this engine as the empty text; the source only tests the group for
  truthiness, and both are falsy.
\<close>

definition rxShapeSuffix :: "nat \<Rightarrow> rx" where
  "rxShapeSuffix n =
     Opt (Grp n (Seq (Star True rxSpace)
                     (Opt (alts [seqs [Lit CHR ''['', Star False Dot, Lit CHR '']''],
                                 seqs [Lit CHR ''('', Star False Dot, Lit CHR '')''],
                                 seqs [Lit CHR ''{'', Star False Dot, Lit CHR ''}'']]))))"

definition rxEdge :: rx where
  "rxEdge =
     seqs [Bol, Grp 1 rxIdent, rxShapeSuffix 2, Star True rxSpace,
           Grp 3 (Alt (lits ''-->'') (lits ''---'')),
           Opt (seqs [Lit CHR ''|'', Grp 4 (Plus False Dot), Lit CHR ''|'']),
           Star True rxSpace, Grp 5 rxIdent, rxShapeSuffix 6, Eol]"

record EdgeResult =
  er_sourceNode :: "RawNode option"
  er_targetNode :: "RawNode option"
  er_edge :: RawEdge

definition endpointNode :: "string \<Rightarrow> string option \<Rightarrow> RawNode option" where
  "endpointNode nodeId shapeText =
     (case shapeText of
        Some s \<Rightarrow>
          if s \<noteq> [] then parseNodeDefinition (nodeId @ s)
          else Some \<lparr>rn_id = nodeId, rn_label = nodeId, rn_shape = Rectangle\<rparr>
      | None \<Rightarrow> Some \<lparr>rn_id = nodeId, rn_label = nodeId, rn_shape = Rectangle\<rparr>)"

definition parseEdgeLine :: "string \<Rightarrow> EdgeResult option" where
  "parseEdgeLine line =
     (case rxMatch noFlags rxEdge line of
        None \<Rightarrow> None
      | Some edgeMatch \<Rightarrow>
          (let sourceId = grpStr edgeMatch 1; targetId = grpStr edgeMatch 5
           in Some \<lparr>er_sourceNode = endpointNode sourceId (grp edgeMatch 2),
                    er_targetNode = endpointNode targetId (grp edgeMatch 6),
                    er_edge = \<lparr>re_source = sourceId, re_target = targetId,
                               re_label = map_option trim (grp edgeMatch 4)\<rparr>\<rparr>))"

text \<open>
  The main loop of \<open>parseFlowchart\<close> over the lines after the header. \<open>nodesMap\<close> is a \<open>Map\<close>:
  a node is entered under its own id, and only if the id is not there yet.
\<close>

record FlowState =
  fs_nodesMap :: "(string \<times> RawNode) list"
  fs_edges :: "RawEdge list"

definition addNode :: "RawNode option \<Rightarrow> (string \<times> RawNode) list \<Rightarrow> (string \<times> RawNode) list" where
  "addNode node nodesMap =
     (case node of
        Some n \<Rightarrow> if map_of nodesMap (rn_id n) = None then AList.update (rn_id n) n nodesMap
                  else nodesMap
      | None \<Rightarrow> nodesMap)"

definition flowLine :: "string \<Rightarrow> FlowState \<Rightarrow> FlowState" where
  "flowLine line st =
     (if startsWith line ''subgraph'' \<or> line = ''end'' then st
      else case parseEdgeLine line of
        Some edgeResult \<Rightarrow>
          \<lparr>fs_nodesMap = addNode (er_targetNode edgeResult)
                            (addNode (er_sourceNode edgeResult) (fs_nodesMap st)),
           fs_edges = fs_edges st @ [er_edge edgeResult]\<rparr>
      | None \<Rightarrow> st\<lparr>fs_nodesMap := addNode (parseNodeDefinition line) (fs_nodesMap st)\<rparr>)"

definition shapeName :: "NodeShape \<Rightarrow> string" where
  "shapeName s =
     (case s of Rectangle \<Rightarrow> ''rectangle'' | Cylinder \<Rightarrow> ''cylinder'' | Stadium \<Rightarrow> ''stadium''
      | Hexagon \<Rightarrow> ''hexagon'' | Ellipse \<Rightarrow> ''ellipse'' | Diamond \<Rightarrow> ''diamond'')"

definition flowNode :: "ExcaliDirective \<Rightarrow> RawNode \<Rightarrow> ParsedNode" where
  "flowNode dir node =
     \<lparr>pn_id = rn_id node, pn_label = rn_label node, pn_shape = rn_shape node,
      pn_styleType = resolveStyle (rn_id node) (rn_label node) (shapeName (rn_shape node))
                       (dir_styles dir)\<rparr>"

definition flowEdge :: "RawEdge \<Rightarrow> ParsedEdge" where
  "flowEdge edge =
     \<lparr>pe_source = re_source edge, pe_target = re_target edge, pe_label = re_label edge,
      pe_arrowType = ArrowHead, pe_lineStyle = None\<rparr>"

definition flowSubgraph :: "ExcaliDirective \<Rightarrow> RawSubgraph \<Rightarrow> ParsedSubgraph" where
  "flowSubgraph dir sg =
     \<lparr>sg_id = rs_id sg, sg_label = rs_label sg, sg_nodes = rs_nodes sg,
      sg_styleType = (case getProp (dir_styles dir) (rs_id sg) of
                        Some v \<Rightarrow> Some (styleOfProp v)
                      | None \<Rightarrow> Some (Style Group))\<rparr>"

definition parseFlowchart :: "string \<Rightarrow> ParsedDiagram" where
  "parseFlowchart mermaidSource =
     (let dir = parseExcaliDirective mermaidSource;
          cleanSource = stripExcaliDirective mermaidSource;
          ls = sourceLines cleanSource;
          headerLine = (case ls of [] \<Rightarrow> [] | l # _ \<Rightarrow> l);
          direction = parseDirection headerLine;
          subgraphs = parseSubgraphs cleanSource;
          st = fold flowLine (tl ls) \<lparr>fs_nodesMap = [], fs_edges = []\<rparr>
      in \<lparr>d_type = Flowchart, d_direction = direction,
          d_nodes = map (flowNode dir) (map snd (fs_nodesMap st)),
          d_edges = map flowEdge (fs_edges st),
          d_subgraphs = map (flowSubgraph dir) subgraphs,
          d_directive = dir, d_rawMermaid = mermaidSource\<rparr>)"

section \<open>Layout engine (converter/layout.ts)\<close>

text \<open>
  Coordinates are rationals: every number the layout computes is a sum, product or half of
  integers. \<open>Math.max\<close> of no arguments is \<open>-Infinity\<close>, which only the \<open>width\<close> and \<open>height\<close>
  of a layout without nodes can be.
\<close>

datatype jsnum = Num rat | NegInfinity

fun mathMax :: "rat list \<Rightarrow> jsnum" where
  "mathMax [] = NegInfinity"
| "mathMax (x # xs) = (case mathMax xs of NegInfinity \<Rightarrow> Num x | Num m \<Rightarrow> Num (max x m))"

fun mathMin :: "rat list \<Rightarrow> rat" where
  "mathMin [] = 0"
| "mathMin [x] = x"
| "mathMin (x # xs) = min x (mathMin xs)"

definition jsPlus :: "jsnum \<Rightarrow> rat \<Rightarrow> jsnum" where
  "jsPlus a b = (case a of Num x \<Rightarrow> Num (x + b) | NegInfinity \<Rightarrow> NegInfinity)"

record LayoutNode =
  ln_id :: string
  ln_x :: rat
  ln_y :: rat
  ln_width :: rat
  ln_height :: rat

text \<open>The optional \<open>strokeColor\<close> of a layout edge is never set and is left out.\<close>

record LayoutEdge =
  le_source :: string
  le_target :: string
  le_points :: "(rat \<times> rat) list"
  le_label :: "string option"
  le_lineStyle :: "LineStyle option"

record LayoutSubgraph =
  ls_id :: string
  ls_x :: rat
  ls_y :: rat
  ls_width :: rat
  ls_height :: rat
  ls_label :: string

record LayoutResult =
  lr_nodes :: "(string \<times> LayoutNode) list"
  lr_edges :: "LayoutEdge list"
  lr_subgraphs :: "LayoutSubgraph list"
  lr_width :: jsnum
  lr_height :: jsnum

definition DEFAULT_NODE_WIDTH :: rat where "DEFAULT_NODE_WIDTH = 160"
definition DEFAULT_NODE_HEIGHT :: rat where "DEFAULT_NODE_HEIGHT = 60"
definition HORIZONTAL_GAP :: rat where "HORIZONTAL_GAP = 80"
definition VERTICAL_GAP :: rat where "VERTICAL_GAP = 100"
definition SUBGRAPH_PADDING :: rat where "SUBGRAPH_PADDING = 40"
definition LABEL_HEIGHT :: rat where "LABEL_HEIGHT = 30"
definition SEQUENCE_MESSAGE_GAP :: rat where "SEQUENCE_MESSAGE_GAP = 60"

text \<open>The longest line of a label; a label always has at least one line.\<close>

definition maxLineLength :: "string list \<Rightarrow> nat" where
  "maxLineLength ls = foldr max (map length ls) 0"

definition calculateNodeSize :: "string \<Rightarrow> rat \<times> rat" where
  "calculateNodeSize label =
     (let ls = splitLines label
      in (max DEFAULT_NODE_WIDTH (of_nat (maxLineLength ls) * 9 + 20),
          max DEFAULT_NODE_HEIGHT (of_nat (length ls) * 20 + 20)))"

subsection \<open>Sequence diagrams\<close>

definition placeParticipant ::
  "ParsedNode \<Rightarrow> rat \<times> (string \<times> LayoutNode) list \<Rightarrow> rat \<times> (string \<times> LayoutNode) list" where
  "placeParticipant node acc =
     (case acc of (x, nodePositions) \<Rightarrow>
        (let sz = calculateNodeSize (pn_label node)
         in (x + (max (fst sz) 120 + HORIZONTAL_GAP + 40),
             AList.update (pn_id node)
               \<lparr>ln_id = pn_id node, ln_x = x, ln_y = 0, ln_width = max (fst sz) 120,
                ln_height = snd sz\<rparr> nodePositions)))"

definition placeMessage ::
  "(string \<times> LayoutNode) list \<Rightarrow> ParsedEdge \<Rightarrow> rat \<times> LayoutEdge list \<Rightarrow> rat \<times> LayoutEdge list" where
  "placeMessage nodePositions edge acc =
     (case acc of (messageY, layoutEdges) \<Rightarrow>
        (case (map_of nodePositions (pe_source edge), map_of nodePositions (pe_target edge)) of
           (Some source, Some target) \<Rightarrow>
             (messageY + SEQUENCE_MESSAGE_GAP,
              layoutEdges @
                [\<lparr>le_source = pe_source edge, le_target = pe_target edge,
                  le_points = [(ln_x source + ln_width source / 2, messageY),
                               (ln_x target + ln_width target / 2, messageY)],
                  le_label = pe_label edge, le_lineStyle = None\<rparr>])
         | _ \<Rightarrow> (messageY, layoutEdges)))"

definition layoutSequenceDiagram :: "ParsedDiagram \<Rightarrow> LayoutResult" where
  "layoutSequenceDiagram diagram =
     (let (x, nodePositions) = fold placeParticipant (d_nodes diagram) (0, []);
          (messageY, layoutEdges) =
             fold (placeMessage nodePositions) (d_edges diagram) (DEFAULT_NODE_HEIGHT + 60, [])
      in \<lparr>lr_nodes = nodePositions, lr_edges = layoutEdges, lr_subgraphs = [],
          lr_width = Num x, lr_height = Num (messageY + 60)\<rparr>)"

subsection \<open>Entity-relationship diagrams\<close>

definition layoutEdgeGenericWithOffset ::
  "ParsedEdge \<Rightarrow> (string \<times> LayoutNode) list \<Rightarrow> nat \<Rightarrow> LayoutEdge" where
  "layoutEdgeGenericWithOffset edge nodePositions index =
     (case (map_of nodePositions (pe_source edge), map_of nodePositions (pe_target edge)) of
        (Some source, Some target) \<Rightarrow>
          (let offset = (of_nat (index mod 3) - 1) * 15;
               sourceCenterX = ln_x source + ln_width source / 2;
               sourceCenterY = ln_y source + ln_height source / 2;
               targetCenterX = ln_x target + ln_width target / 2;
               targetCenterY = ln_y target + ln_height target / 2;
               dx = targetCenterX - sourceCenterX;
               dy = targetCenterY - sourceCenterY;
               pts = (if \<bar>dx\<bar> > \<bar>dy\<bar>
                      then (if dx > 0
                            then [(ln_x source + ln_width source, sourceCenterY + offset),
                                  (ln_x target, targetCenterY + offset)]
                            else [(ln_x source, sourceCenterY + offset),
                                  (ln_x target + ln_width target, targetCenterY + offset)])
                      else (if dy > 0
                            then [(sourceCenterX + offset, ln_y source + ln_height source),
                                  (targetCenterX + offset, ln_y target)]
                            else [(sourceCenterX + offset, ln_y source),
                                  (targetCenterX + offset, ln_y target + ln_height target)]))
           in \<lparr>le_source = pe_source edge, le_target = pe_target edge, le_points = pts,
               le_label = pe_label edge, le_lineStyle = None\<rparr>)
      | _ \<Rightarrow> \<lparr>le_source = pe_source edge, le_target = pe_target edge, le_points = [],
               le_label = pe_label edge, le_lineStyle = None\<rparr>)"

text \<open>\<open>Math.min(4, Math.ceil(Math.sqrt(n) * 1.5))\<close>\<close>

definition erColumns :: "nat \<Rightarrow> nat" where
  "erColumns n = min 4 (nat \<lceil>sqrt (real n) * 3 / 2\<rceil>)"

text \<open>The same number without the square root, for evaluation.\<close>

lemma erColumns_code [code]:
  "erColumns n = (if n = 0 then 0 else if n = 1 then 2 else if n \<le> 4 then 3 else 4)"
proof -
  have c0: "erColumns 0 = 0" by (simp add: erColumns_def)
  have c1: "erColumns 1 = 2"
  proof -
    have "\<lceil>(3::real) / 2\<rceil> = 2" by (simp add: ceiling_eq_iff)
    then show ?thesis by (simp add: erColumns_def)
  qed
  have c3: "erColumns n = 3" if "2 \<le> n" "n \<le> 4"
  proof -
    have lo: "4 / 3 < sqrt (real n)"
      using that by (intro real_less_rsqrt) (simp add: power2_eq_square)
    have hi: "sqrt (real n) \<le> 2"
      using that by (intro real_le_lsqrt) simp_all
    have "\<lceil>sqrt (real n) * 3 / 2\<rceil> = 3"
      using lo hi by (simp add: ceiling_eq_iff)
    then show ?thesis by (simp add: erColumns_def)
  qed
  have c4: "erColumns n = 4" if "5 \<le> n"
  proof -
    have "2 < sqrt (real n)"
      using that by (intro real_less_rsqrt) simp
    then have "3 < sqrt (real n) * 3 / 2" by simp
    then have "(3::int) < \<lceil>sqrt (real n) * 3 / 2\<rceil>"
      by (simp only: less_ceiling_iff of_int_numeral)
    then have "4 \<le> nat \<lceil>sqrt (real n) * 3 / 2\<rceil>"
      by linarith
    then show ?thesis unfolding erColumns_def by (rule min_absorb1)
  qed
  show ?thesis
    using c0 c1 c3 c4 by (cases "n = 0"; cases "n = 1") auto
qed

record ERPlacement =
  ep_maxRowHeight :: rat
  ep_x :: rat
  ep_y :: rat
  ep_col :: nat
  ep_positions :: "(string \<times> LayoutNode) list"

text \<open>
  \<open>sizes.get(node.id)!\<close>: reading \<open>width\<close> of a missing entry would throw a \<open>TypeError\<close>.
\<close>

definition placeEntity ::
  "(string \<times> rat \<times> rat) list \<Rightarrow> nat \<Rightarrow> ParsedNode \<Rightarrow> ERPlacement \<Rightarrow> jsError + ERPlacement" where
  "placeEntity sizes cols node st =
     (case map_of sizes (pn_id node) of
        None \<Rightarrow> Inl TypeError
      | Some sz \<Rightarrow>
          (let st1 = st\<lparr>ep_positions :=
                          AList.update (pn_id node)
                            \<lparr>ln_id = pn_id node, ln_x = ep_x st, ln_y = ep_y st,
                             ln_width = fst sz, ln_height = snd sz\<rparr> (ep_positions st),
                        ep_maxRowHeight := max (ep_maxRowHeight st) (snd sz),
                        ep_x := ep_x st + (fst sz + (HORIZONTAL_GAP + 60)),
                        ep_col := ep_col st + 1\<rparr>
           in Inr (if ep_col st1 \<ge> cols
                   then st1\<lparr>ep_col := 0, ep_x := 0,
                            ep_y := ep_y st1 + (ep_maxRowHeight st1 + (VERTICAL_GAP + 40)),
                            ep_maxRowHeight := 0\<rparr>
                   else st1)))"

fun placeEntities ::
  "(string \<times> rat \<times> rat) list \<Rightarrow> nat \<Rightarrow> ParsedNode list \<Rightarrow> ERPlacement \<Rightarrow> jsError + ERPlacement" where
  "placeEntities sizes cols [] st = Inr st"
| "placeEntities sizes cols (node # ns) st =
     (case placeEntity sizes cols node st of
        Inl e \<Rightarrow> Inl e
      | Inr st' \<Rightarrow> placeEntities sizes cols ns st')"

definition layoutERDiagram :: "ParsedDiagram \<Rightarrow> jsError + LayoutResult" where
  "layoutERDiagram diagram =
     (let sizes = fold (\<lambda>node. AList.update (pn_id node) (calculateNodeSize (pn_label node)))
                    (d_nodes diagram) [];
          cols = erColumns (length (d_nodes diagram))
      in case placeEntities sizes cols (d_nodes diagram)
                \<lparr>ep_maxRowHeight = 0, ep_x = 0, ep_y = 0, ep_col = 0, ep_positions = []\<rparr> of
           Inl e \<Rightarrow> Inl e
         | Inr st \<Rightarrow>
             (let nodePositions = ep_positions st
              in Inr \<lparr>lr_nodes = nodePositions,
                      lr_edges = map (\<lambda>(index, edge).
                                        layoutEdgeGenericWithOffset edge nodePositions index)
                                   (enumerate 0 (d_edges diagram)),
                      lr_subgraphs = [],
                      lr_width = jsPlus (mathMax (map (\<lambda>(k, n). ln_x n + ln_width n) nodePositions))
                                   HORIZONTAL_GAP,
                      lr_height = jsPlus (mathMax (map (\<lambda>(k, n). ln_y n + ln_height n) nodePositions))
                                    VERTICAL_GAP\<rparr>))"

subsection \<open>Flowcharts\<close>

record Adjacency =
  adj_incoming :: "string list"
  adj_outgoing :: "string list"

definition addEdgeAdjacency ::
  "ParsedEdge \<Rightarrow> (string \<times> Adjacency) list \<Rightarrow> (string \<times> Adjacency) list" where
  "addEdgeAdjacency edge adjacency =
     AList.map_entry (pe_target edge) (\<lambda>a. a\<lparr>adj_incoming := adj_incoming a @ [pe_source edge]\<rparr>)
       (AList.map_entry (pe_source edge) (\<lambda>a. a\<lparr>adj_outgoing := adj_outgoing a @ [pe_target edge]\<rparr>)
          adjacency)"

definition buildAdjacency :: "ParsedNode list \<Rightarrow> ParsedEdge list \<Rightarrow> (string \<times> Adjacency) list" where
  "buildAdjacency ns es =
     fold addEdgeAdjacency es
       (fold (\<lambda>node. AList.update (pn_id node) \<lparr>adj_incoming = [], adj_outgoing = []\<rparr>) ns [])"

text \<open>
  The breadth-first loop of \<open>calculateDepths\<close>. The queue holds pairs of id and depth; a node
  met again only has its own depth raised, its successors are not queued again. The loop
  ends because every id is expanded at most once: the number of queued pairs plus, for
  every id not yet visited, one more than the number of its successors goes down with each
  iteration.
\<close>

definition bfsWeight :: "(string \<times> Adjacency) list \<Rightarrow> string list \<Rightarrow> nat" where
  "bfsWeight adjacency visited =
     (\<Sum>k \<in> set (map fst adjacency) - set visited.
        Suc (Suc (length (adj_outgoing (the (map_of adjacency k))))))"

function bfsDepths ::
  "(string \<times> Adjacency) list \<Rightarrow> (string \<times> nat) list \<Rightarrow> string list \<Rightarrow> (string \<times> nat) list
     \<Rightarrow> (string \<times> nat) list" where
  "bfsDepths adjacency [] visited depths = depths"
| "bfsDepths adjacency ((nid, depth) # queue) visited depths =
     (if nid \<in> set visited
      then bfsDepths adjacency queue visited
             (if depth > (case map_of depths nid of Some d \<Rightarrow> d | None \<Rightarrow> 0)
              then AList.update nid depth depths else depths)
      else bfsDepths adjacency
             (queue @ (case map_of adjacency nid of
                         Some adj \<Rightarrow> map (\<lambda>targetId. (targetId, depth + 1)) (adj_outgoing adj)
                       | None \<Rightarrow> []))
             (visited @ [nid]) (AList.update nid depth depths))"
  by pat_completeness auto
termination
proof (relation "measure (\<lambda>(adjacency, queue, visited, depths).
                   length queue + bfsWeight adjacency visited)")
  show "wf (measure (\<lambda>(adjacency, queue, visited, depths).
                   length queue + bfsWeight adjacency visited))"
    by simp
next
  fix adjacency :: "(string \<times> Adjacency) list" and nid :: string and depth :: nat
    and queue :: "(string \<times> nat) list" and visited :: "string list"
    and depths :: "(string \<times> nat) list"
  assume "nid \<in> set visited"
  then show "((adjacency, queue, visited,
               if (case map_of depths nid of None \<Rightarrow> 0 | Some d \<Rightarrow> d) < depth
               then AList.update nid depth depths else depths),
              adjacency, (nid, depth) # queue, visited, depths)
             \<in> measure (\<lambda>(adjacency, queue, visited, depths).
                   length queue + bfsWeight adjacency visited)"
    by simp
next
  fix adjacency :: "(string \<times> Adjacency) list" and nid :: string and depth :: nat
    and queue :: "(string \<times> nat) list" and visited :: "string list"
    and depths :: "(string \<times> nat) list"
  assume nv: "nid \<notin> set visited"
  let ?w = "\<lambda>k. Suc (Suc (length (adj_outgoing (the (map_of adjacency k)))))"
  let ?S = "set (map fst adjacency) - set visited"
  have S': "set (map fst adjacency) - set (visited @ [nid]) = ?S - {nid}"
    by auto
  have w: "bfsWeight adjacency visited = sum ?w ?S"
    by (simp only: bfsWeight_def)
  have w': "bfsWeight adjacency (visited @ [nid]) = sum ?w (?S - {nid})"
    by (simp only: bfsWeight_def S')
  show "((adjacency,
          queue @ (case map_of adjacency nid of None \<Rightarrow> []
                   | Some adj \<Rightarrow> map (\<lambda>targetId. (targetId, depth + 1)) (adj_outgoing adj)),
          visited @ [nid], AList.update nid depth depths),
         adjacency, (nid, depth) # queue, visited, depths)
        \<in> measure (\<lambda>(adjacency, queue, visited, depths).
              length queue + bfsWeight adjacency visited)"
  proof (cases "map_of adjacency nid")
    case None
    then have "nid \<notin> ?S"
      by (simp add: map_of_eq_None_iff)
    then have "?S - {nid} = ?S"
      by auto
    then have "bfsWeight adjacency (visited @ [nid]) = bfsWeight adjacency visited"
      by (simp only: w w')
    then show ?thesis
      using None by simp
  next
    case (Some adj)
    then have "nid \<in> ?S"
      using nv by (auto simp: rev_image_eqI dest: map_of_SomeD)
    then have "sum ?w ?S = ?w nid + sum ?w (?S - {nid})"
      by (simp add: sum.remove)
    then have "bfsWeight adjacency visited
                 = Suc (Suc (length (adj_outgoing adj))) + bfsWeight adjacency (visited @ [nid])"
      using Some by (simp only: w w' option.sel)
    then show ?thesis
      using Some by simp
  qed
qed

declare bfsDepths.simps [simp del]

definition calculateDepths ::
  "ParsedNode list \<Rightarrow> (string \<times> Adjacency) list \<Rightarrow> (string \<times> nat) list" where
  "calculateDepths ns adjacency =
     (let roots = filter (\<lambda>n. case map_of adjacency (pn_id n) of
                                 None \<Rightarrow> True | Some adj \<Rightarrow> adj_incoming adj = []) ns;
          depths = bfsDepths adjacency (map (\<lambda>r. (pn_id r, 0)) roots) [] []
      in fold (\<lambda>node d. if map_of d (pn_id node) = None then AList.update (pn_id node) 0 d else d)
           ns depths)"

text \<open>
  \<open>groupByDepth\<close>: \<open>maxDepth + 1\<close> empty rows (none when \<open>depths\<close> is empty), then every node
  is pushed to the row of its depth. A push to a row that does not exist would throw.
\<close>

fun maxDepthOf :: "nat list \<Rightarrow> nat option" where
  "maxDepthOf [] = None"
| "maxDepthOf (d # ds) = (case maxDepthOf ds of None \<Rightarrow> Some d | Some m \<Rightarrow> Some (max d m))"

fun pushToGroups ::
  "ParsedNode list \<Rightarrow> (string \<times> nat) list \<Rightarrow> ParsedNode list list \<Rightarrow> jsError + ParsedNode list list" where
  "pushToGroups [] depths groups = Inr groups"
| "pushToGroups (node # ns) depths groups =
     (let depth = (case map_of depths (pn_id node) of Some d \<Rightarrow> d | None \<Rightarrow> 0)
      in if depth < length groups
         then pushToGroups ns depths (groups[depth := groups ! depth @ [node]])
         else Inl TypeError)"

definition groupByDepth ::
  "ParsedNode list \<Rightarrow> (string \<times> nat) list \<Rightarrow> jsError + ParsedNode list list" where
  "groupByDepth ns depths =
     pushToGroups ns depths
       (replicate (case maxDepthOf (map snd depths) of None \<Rightarrow> 0 | Some m \<Rightarrow> m + 1) [])"

definition layoutSubgraph :: "ParsedSubgraph \<Rightarrow> (string \<times> LayoutNode) list \<Rightarrow> LayoutSubgraph" where
  "layoutSubgraph sg nodePositions =
     (let nodeLayouts = List.map_filter (map_of nodePositions) (sg_nodes sg)
      in if nodeLayouts = []
         then \<lparr>ls_id = sg_id sg, ls_x = 0, ls_y = 0,
               ls_width = DEFAULT_NODE_WIDTH + SUBGRAPH_PADDING * 2,
               ls_height = DEFAULT_NODE_HEIGHT + SUBGRAPH_PADDING * 2 + LABEL_HEIGHT,
               ls_label = sg_label sg\<rparr>
         else (let minX = mathMin (map ln_x nodeLayouts);
                   minY = mathMin (map ln_y nodeLayouts);
                   maxX = - mathMin (map (\<lambda>n. - (ln_x n + ln_width n)) nodeLayouts);
                   maxY = - mathMin (map (\<lambda>n. - (ln_y n + ln_height n)) nodeLayouts)
               in \<lparr>ls_id = sg_id sg, ls_x = minX - SUBGRAPH_PADDING,
                   ls_y = minY - SUBGRAPH_PADDING - LABEL_HEIGHT,
                   ls_width = maxX - minX + SUBGRAPH_PADDING * 2,
                   ls_height = maxY - minY + SUBGRAPH_PADDING * 2 + LABEL_HEIGHT,
                   ls_label = sg_label sg\<rparr>))"

definition layoutEdge :: "ParsedEdge \<Rightarrow> (string \<times> LayoutNode) list \<Rightarrow> bool \<Rightarrow> LayoutEdge" where
  "layoutEdge edge nodePositions isHorizontal =
     (case (map_of nodePositions (pe_source edge), map_of nodePositions (pe_target edge)) of
        (Some source, Some target) \<Rightarrow>
          \<lparr>le_source = pe_source edge, le_target = pe_target edge,
           le_points =
             (if isHorizontal
              then (if ln_x source < ln_x target
                    then [(ln_x source + ln_width source, ln_y source + ln_height source / 2),
                          (ln_x target, ln_y target + ln_height target / 2)]
                    else [(ln_x source, ln_y source + ln_height source / 2),
                          (ln_x target + ln_width target, ln_y target + ln_height target / 2)])
              else (if ln_y source < ln_y target
                    then [(ln_x source + ln_width source / 2, ln_y source + ln_height source),
                          (ln_x target + ln_width target / 2, ln_y target)]
                    else [(ln_x source + ln_width source / 2, ln_y source),
                          (ln_x target + ln_width target / 2, ln_y target + ln_height target)])),
           le_label = pe_label edge, le_lineStyle = pe_lineStyle edge\<rparr>
      | _ \<Rightarrow> \<lparr>le_source = pe_source edge, le_target = pe_target edge, le_points = [],
               le_label = pe_label edge, le_lineStyle = pe_lineStyle edge\<rparr>)"

text \<open>
  The placement of one row. \<open>maxNodesInRow\<close> is the largest row length; it is read only
  inside the loop over the rows, where at least one row exists.
\<close>

definition placeRow ::
  "bool \<Rightarrow> bool \<Rightarrow> nat \<Rightarrow> nat \<Rightarrow> nat \<times> ParsedNode list \<Rightarrow> (string \<times> LayoutNode) list
     \<Rightarrow> (string \<times> LayoutNode) list" where
  "placeRow isHorizontal isReverse nRows maxNodesInRow row nodePositions =
     (case row of (depthIndex, rowNodes) \<Rightarrow>
        (let rowWidth = of_nat (length rowNodes) * (DEFAULT_NODE_WIDTH + HORIZONTAL_GAP) - HORIZONTAL_GAP;
             startOffset = ((of_nat maxNodesInRow * (DEFAULT_NODE_WIDTH + HORIZONTAL_GAP)
                              - HORIZONTAL_GAP) - rowWidth) / 2
         in fold (\<lambda>(colIndex, node) pos.
                    (let x0 = (if isHorizontal
                               then of_nat depthIndex * (DEFAULT_NODE_WIDTH + HORIZONTAL_GAP)
                               else startOffset + of_nat colIndex * (DEFAULT_NODE_WIDTH + HORIZONTAL_GAP));
                         y0 = (if isHorizontal
                               then startOffset + of_nat colIndex * (DEFAULT_NODE_HEIGHT + VERTICAL_GAP)
                               else of_nat depthIndex * (DEFAULT_NODE_HEIGHT + VERTICAL_GAP));
                         maxDepth = (of_nat nRows :: rat) - 1;
                         x = (if isReverse \<and> isHorizontal
                              then (maxDepth - of_nat depthIndex) * (DEFAULT_NODE_WIDTH + HORIZONTAL_GAP)
                              else x0);
                         y = (if isReverse \<and> \<not> isHorizontal
                              then (maxDepth - of_nat depthIndex) * (DEFAULT_NODE_HEIGHT + VERTICAL_GAP)
                              else y0)
                     in AList.update (pn_id node)
                          \<lparr>ln_id = pn_id node, ln_x = x, ln_y = y, ln_width = DEFAULT_NODE_WIDTH,
                           ln_height = DEFAULT_NODE_HEIGHT\<rparr> pos))
              (enumerate 0 rowNodes) nodePositions))"

text \<open>
  The loop "adjust node positions if inside subgraphs" of the source has an empty body and
  is not repeated here.
\<close>

definition layoutFlowchart :: "ParsedDiagram \<Rightarrow> jsError + LayoutResult" where
  "layoutFlowchart diagram =
     (let isHorizontal = (d_direction diagram = DirLR \<or> d_direction diagram = DirRL);
          isReverse = (d_direction diagram = DirRL \<or> d_direction diagram = DirBT);
          adjacency = buildAdjacency (d_nodes diagram) (d_edges diagram);
          depths = calculateDepths (d_nodes diagram) adjacency
      in case groupByDepth (d_nodes diagram) depths of
           Inl e \<Rightarrow> Inl e
         | Inr nodesByDepth \<Rightarrow>
             (let maxNodesInRow = foldr max (map length nodesByDepth) 0;
                  nodePositions =
                    fold (placeRow isHorizontal isReverse (length nodesByDepth) maxNodesInRow)
                      (enumerate 0 nodesByDepth) [];
                  layoutSubgraphs = map (\<lambda>sg. layoutSubgraph sg nodePositions) (d_subgraphs diagram)
              in Inr \<lparr>lr_nodes = nodePositions,
                      lr_edges = map (\<lambda>edge. layoutEdge edge nodePositions isHorizontal)
                                   (d_edges diagram),
                      lr_subgraphs = layoutSubgraphs,
                      lr_width = jsPlus (mathMax (map (\<lambda>(k, n). ln_x n + ln_width n) nodePositions
                                                   @ map (\<lambda>s. ls_x s + ls_width s) layoutSubgraphs))
                                   HORIZONTAL_GAP,
                      lr_height = jsPlus (mathMax (map (\<lambda>(k, n). ln_y n + ln_height n) nodePositions
                                                    @ map (\<lambda>s. ls_y s + ls_height s) layoutSubgraphs))
                                    VERTICAL_GAP\<rparr>))"

definition layoutDiagram :: "ParsedDiagram \<Rightarrow> jsError + LayoutResult" where
  "layoutDiagram diagram =
     (case d_type diagram of
        Sequence \<Rightarrow> Inr (layoutSequenceDiagram diagram)
      | ER \<Rightarrow> layoutERDiagram diagram
      | _ \<Rightarrow> layoutFlowchart diagram)"

section \<open>Scene primitives (converter/elements.ts)\<close>

text \<open>
  An element keeps the fields that differ between elements. The fields that hold the same
  constant in every element the synthesizer builds (\<open>angle\<close>, \<open>fillStyle\<close>, \<open>roughness\<close>,
  \<open>opacity\<close>, \<open>groupIds\<close>, \<open>frameId\<close>, \<open>version\<close>, \<open>isDeleted\<close>, \<open>link\<close>, \<open>locked\<close>, and for
  text \<open>fontFamily\<close>, \<open>containerId\<close>, \<open>autoResize\<close>, \<open>lineHeight\<close>, \<open>hasTextLink\<close>) are left out,
  as are \<open>originalText\<close> and \<open>rawText\<close>, which repeat \<open>text\<close>. The text fields and the
  line fields are present only on elements that get them: the fallback arrow of
  \<open>createArrow\<close> is a bare base element.
\<close>

datatype ElementType = ERectangle | EEllipse | EArrow | ELine | EText

datatype BoundKind = BoundArrow | BoundText

record ExcalidrawBinding =
  b_elementId :: string
  b_focus :: rat
  b_gap :: rat

record TextFields =
  tx_text :: string
  tx_fontSize :: rat
  tx_textAlign :: string
  tx_verticalAlign :: string
  tx_baseline :: int

record LineFields =
  lf_points :: "(rat \<times> rat) list"
  lf_startBinding :: "ExcalidrawBinding option"
  lf_endBinding :: "ExcalidrawBinding option"
  lf_endArrowhead :: bool

record ExcalidrawElement =
  el_id :: string
  el_type :: ElementType
  el_x :: rat
  el_y :: rat
  el_width :: rat
  el_height :: rat
  el_strokeColor :: string
  el_backgroundColor :: string
  el_strokeWidth :: rat
  el_strokeStyle :: LineStyle
  el_index :: string
  el_roundness :: "nat option"
  el_seed :: nat
  el_boundElements :: "(string \<times> BoundKind) list"
  el_updated :: int
  el_text :: "TextFields option"
  el_line :: "LineFields option"

text \<open>
  The state outside the conversion: the module-wide seed counter, the identities that the
  random generator hands out (the \<open>k\<close>-th call of \<open>generateId\<close> returns \<open>w_randomIds k\<close>), and
  the clock read while an element is built.
\<close>

record World =
  w_seedCounter :: nat
  w_idCalls :: nat
  w_randomIds :: "nat \<Rightarrow> string"
  w_clock :: "nat \<Rightarrow> int"

definition generateSeed :: "World \<Rightarrow> nat \<times> World" where
  "generateSeed w = (w_seedCounter w, w\<lparr>w_seedCounter := w_seedCounter w + 1\<rparr>)"

definition generateId :: "World \<Rightarrow> string \<times> World" where
  "generateId w = (w_randomIds w (w_idCalls w), w\<lparr>w_idCalls := w_idCalls w + 1\<rparr>)"

definition createBaseElement ::
  "ElementType \<Rightarrow> rat \<Rightarrow> rat \<Rightarrow> rat \<Rightarrow> rat \<Rightarrow> string \<Rightarrow> World \<Rightarrow> ExcalidrawElement \<times> World" where
  "createBaseElement ty x y width height index w =
     (let (seed, w1) = generateSeed w;
          (newId, w2) = generateId w1
      in (\<lparr>el_id = newId, el_type = ty, el_x = x, el_y = y, el_width = width,
           el_height = height, el_strokeColor = ''#1e1e1e'', el_backgroundColor = ''transparent'',
           el_strokeWidth = 1, el_strokeStyle = Solid, el_index = index,
           el_roundness = (if ty = EArrow then Some 2 else None), el_seed = seed,
           el_boundElements = [], el_updated = w_clock w seed, el_text = None,
           el_line = None\<rparr>, w2))"

definition createRectangle ::
  "LayoutNode \<Rightarrow> ParsedNode \<Rightarrow> string \<Rightarrow> World \<Rightarrow> ExcalidrawElement \<times> World" where
  "createRectangle layout node index w =
     (let colors = getStyleColors (pn_styleType node);
          (base, w1) = createBaseElement ERectangle (ln_x layout) (ln_y layout) (ln_width layout)
                         (ln_height layout) index w
      in (base\<lparr>el_type := ERectangle, el_strokeColor := sc_strokeColor colors,
               el_backgroundColor := sc_backgroundColor colors\<rparr>, w1))"

definition createEllipse ::
  "LayoutNode \<Rightarrow> ParsedNode \<Rightarrow> string \<Rightarrow> World \<Rightarrow> ExcalidrawElement \<times> World" where
  "createEllipse layout node index w =
     (let colors = getStyleColors (pn_styleType node);
          (base, w1) = createBaseElement EEllipse (ln_x layout) (ln_y layout) (ln_width layout)
                         (ln_height layout) index w
      in (base\<lparr>el_type := EEllipse, el_strokeColor := sc_strokeColor colors,
               el_backgroundColor := sc_backgroundColor colors\<rparr>, w1))"

record TextOptions =
  to_fontSize :: "rat option"
  to_textAlign :: "string option"
  to_verticalAlign :: "string option"
  to_strokeColor :: "string option"

definition noTextOptions :: TextOptions where
  "noTextOptions =
     \<lparr>to_fontSize = None, to_textAlign = None, to_verticalAlign = None, to_strokeColor = None\<rparr>"

text \<open>\<open>Math.round\<close> rounds halves upwards.\<close>

definition mathRound :: "rat \<Rightarrow> int" where
  "mathRound q = \<lfloor>q + 1 / 2\<rfloor>"

definition createText ::
  "rat \<Rightarrow> rat \<Rightarrow> string \<Rightarrow> string \<Rightarrow> TextOptions \<Rightarrow> World \<Rightarrow> ExcalidrawElement \<times> World" where
  "createText x y txt index options w =
     (let fontSize = (case to_fontSize options of Some f \<Rightarrow> f | None \<Rightarrow> 16);
          ls = splitLines txt;
          width = of_nat (maxLineLength ls) * fontSize * (55 / 100);
          height = of_nat (length ls) * fontSize * (5 / 4);
          (base, w1) = createBaseElement EText x y width height index w;
          (newId, w2) = generateId w1
      in (base\<lparr>el_id := newId, el_type := EText,
               el_strokeColor := (case to_strokeColor options of Some c \<Rightarrow> c | None \<Rightarrow> ''#1e1e1e''),
               el_text := Some \<lparr>tx_text = txt, tx_fontSize = fontSize,
                                tx_textAlign = (case to_textAlign options of
                                                  Some a \<Rightarrow> a | None \<Rightarrow> ''center''),
                                tx_verticalAlign = (case to_verticalAlign options of
                                                      Some a \<Rightarrow> a | None \<Rightarrow> ''middle''),
                                tx_baseline = mathRound (fontSize * (8 / 10))\<rparr>\<rparr>, w2))"

record ArrowBindings =
  ab_startBinding :: "ExcalidrawBinding option"
  ab_endBinding :: "ExcalidrawBinding option"

text \<open>\<open>ArrowOptions.strokeColor\<close> is never read by \<open>createArrow\<close> and is left out.\<close>

record ArrowOptions =
  ao_bindings :: "ArrowBindings option"
  ao_strokeStyle :: "LineStyle option"

definition createArrow ::
  "LayoutEdge \<Rightarrow> string \<Rightarrow> ArrowOptions option \<Rightarrow> World \<Rightarrow> ExcalidrawElement \<times> World" where
  "createArrow edge index options w =
     (let points = le_points edge
      in if length points < 2
         then createBaseElement EArrow 0 0 0 0 index w
         else (let startPoint = hd points;
                   endPoint = last points;
                   relativePoints = map (\<lambda>p. (fst p - fst startPoint, snd p - snd startPoint)) points;
                   width = \<bar>fst endPoint - fst startPoint\<bar>;
                   height = \<bar>snd endPoint - snd startPoint\<bar>;
                   (base, w1) = createBaseElement EArrow (fst startPoint) (snd startPoint) width
                                  height index w
               in (base\<lparr>el_type := EArrow, el_strokeColor := ''#1e1e1e'',
                        el_strokeStyle := (case Option.bind options ao_strokeStyle of
                                             Some s \<Rightarrow> s | None \<Rightarrow> Solid),
                        el_line := Some
                          \<lparr>lf_points = relativePoints,
                           lf_startBinding =
                             Option.bind (Option.bind options ao_bindings) ab_startBinding,
                           lf_endBinding =
                             Option.bind (Option.bind options ao_bindings) ab_endBinding,
                           lf_endArrowhead = True\<rparr>\<rparr>, w1)))"

record LineOptions =
  lo_strokeColor :: "string option"
  lo_strokeStyle :: "LineStyle option"
  lo_strokeWidth :: "rat option"

definition createLine ::
  "rat \<Rightarrow> rat \<Rightarrow> rat \<Rightarrow> rat \<Rightarrow> string \<Rightarrow> LineOptions \<Rightarrow> World \<Rightarrow> ExcalidrawElement \<times> World" where
  "createLine x1 y1 x2 y2 index options w =
     (let (base, w1) = createBaseElement ELine x1 y1 \<bar>x2 - x1\<bar> \<bar>y2 - y1\<bar> index w
      in (base\<lparr>el_type := ELine,
               el_strokeColor := (case lo_strokeColor options of Some c \<Rightarrow> c | None \<Rightarrow> ''#1e1e1e''),
               el_strokeStyle := (case lo_strokeStyle options of Some s \<Rightarrow> s | None \<Rightarrow> Solid),
               el_strokeWidth := (case lo_strokeWidth options of Some s \<Rightarrow> s | None \<Rightarrow> 1),
               el_line := Some \<lparr>lf_points = [(0, 0), (x2 - x1, y2 - y1)], lf_startBinding = None,
                                lf_endBinding = None, lf_endArrowhead = False\<rparr>\<rparr>, w1))"

definition createSubgraphRect ::
  "LayoutSubgraph \<Rightarrow> ParsedSubgraph \<Rightarrow> string \<Rightarrow> World \<Rightarrow> ExcalidrawElement \<times> World" where
  "createSubgraphRect layout subgraph index w =
     (let colors = getStyleColors (sg_styleType subgraph);
          (base, w1) = createBaseElement ERectangle (ls_x layout) (ls_y layout) (ls_width layout)
                         (ls_height layout) index w
      in (base\<lparr>el_type := ERectangle, el_strokeColor := sc_strokeColor colors,
               el_backgroundColor := ''transparent'', el_strokeStyle := Dashed,
               el_strokeWidth := 2\<rparr>, w1))"

definition nodeShapeToElement ::
  "LayoutNode \<Rightarrow> ParsedNode \<Rightarrow> string \<Rightarrow> World \<Rightarrow> ExcalidrawElement \<times> World" where
  "nodeShapeToElement layout node index w =
     (case pn_shape node of
        Ellipse \<Rightarrow> createEllipse layout node index w
      | Cylinder \<Rightarrow> createEllipse layout node index w
      | _ \<Rightarrow> createRectangle layout node index w)"

record TextElementInfo =
  ti_element :: ExcalidrawElement
  ti_id :: string
  ti_text :: string

definition createNodeWithLabel ::
  "LayoutNode \<Rightarrow> ParsedNode \<Rightarrow> string \<Rightarrow> string \<Rightarrow> World
     \<Rightarrow> (ExcalidrawElement \<times> TextElementInfo) \<times> World" where
  "createNodeWithLabel layout node shapeIndex textIndex w =
     (let (shape, w1) = nodeShapeToElement layout node shapeIndex w;
          fontSize = (16 :: rat);
          ls = splitLines (pn_label node);
          textWidth = of_nat (maxLineLength ls) * fontSize * (55 / 100);
          textHeight = of_nat (length ls) * fontSize * (5 / 4);
          textX = ln_x layout + (ln_width layout - textWidth) / 2;
          textY = ln_y layout + (ln_height layout - textHeight) / 2;
          textAlign = (if length ls > 1 then ''left'' else ''center'');
          (textElement, w2) =
             createText textX textY (pn_label node) textIndex
               (noTextOptions\<lparr>to_textAlign := Some textAlign, to_verticalAlign := Some ''top''\<rparr>) w1
      in ((shape, \<lparr>ti_element = textElement, ti_id = el_id textElement,
                   ti_text = pn_label node\<rparr>), w2))"

section \<open>Scene synthesizer (converter/index.ts)\<close>

text \<open>
  The local state of one conversion. \<open>nodeElementIds\<close> is a \<open>Map\<close>. The final serialization
  into a document (\<open>createExcalidrawDocument\<close>, \<open>formatObsidianFile\<close>) only wraps the element
  list and is not part of the model: a conversion returns the elements and the text
  descriptors.
\<close>

record Conv =
  cv_world :: World
  cv_indexCounter :: nat
  cv_elements :: "ExcalidrawElement list"
  cv_textInfos :: "TextElementInfo list"
  cv_nodeElementIds :: "(string \<times> string) list"
  cv_arrowElements :: "ExcalidrawElement list"

definition indexToken :: "nat \<Rightarrow> string" where
  "indexToken n = ''a'' @ decimal n"

definition nextIndex :: "Conv \<Rightarrow> string \<times> Conv" where
  "nextIndex st = (indexToken (cv_indexCounter st), st\<lparr>cv_indexCounter := cv_indexCounter st + 1\<rparr>)"

definition pushElement :: "ExcalidrawElement \<Rightarrow> Conv \<Rightarrow> Conv" where
  "pushElement e st = st\<lparr>cv_elements := cv_elements st @ [e]\<rparr>"

definition pushTextInfo :: "ExcalidrawElement \<Rightarrow> string \<Rightarrow> Conv \<Rightarrow> Conv" where
  "pushTextInfo e txt st =
     st\<lparr>cv_textInfos := cv_textInfos st @ [\<lparr>ti_element = e, ti_id = el_id e, ti_text = txt\<rparr>]\<rparr>"

definition convSubgraph :: "LayoutResult \<Rightarrow> ParsedSubgraph \<Rightarrow> Conv \<Rightarrow> Conv" where
  "convSubgraph layout sg st =
     (case find (\<lambda>l. ls_id l = sg_id sg) (lr_subgraphs layout) of
        None \<Rightarrow> st
      | Some layoutSg \<Rightarrow>
          (let (i1, st1) = nextIndex st;
               (sgRect, w1) = createSubgraphRect layoutSg sg i1 (cv_world st1);
               st2 = pushElement sgRect (st1\<lparr>cv_world := w1\<rparr>);
               (i2, st3) = nextIndex st2;
               (labelText, w2) =
                  createText (ls_x layoutSg + 10) (ls_y layoutSg + 5) (ls_label layoutSg) i2
                    (noTextOptions\<lparr>to_fontSize := Some 14, to_textAlign := Some ''left'',
                                   to_strokeColor := Some ''#495057''\<rparr>) (cv_world st3)
           in pushTextInfo labelText (ls_label layoutSg)
                (pushElement labelText (st3\<lparr>cv_world := w2\<rparr>))))"

definition convNode :: "ParsedDiagram \<Rightarrow> LayoutResult \<Rightarrow> ParsedNode \<Rightarrow> Conv \<Rightarrow> Conv" where
  "convNode diagram layout node st =
     (case map_of (lr_nodes layout) (pn_id node) of
        None \<Rightarrow> st
      | Some layoutNode \<Rightarrow>
          (let (i1, st1) = nextIndex st;
               (i2, st2) = nextIndex st1;
               ((shape, txt), w1) = createNodeWithLabel layoutNode node i1 i2 (cv_world st2);
               st3 = st2\<lparr>cv_world := w1,
                         cv_nodeElementIds := AList.update (pn_id node) (el_id shape)
                                                (cv_nodeElementIds st2)\<rparr>;
               st4 = pushElement (ti_element txt) (pushElement shape st3);
               st5 = st4\<lparr>cv_textInfos := cv_textInfos st4 @ [txt]\<rparr>
           in if d_type diagram = ER \<and> includesStr (pn_label node) [CHR 0x0A]
              then (let ls = splitLines (pn_label node);
                        firstLineHeight = (16 :: rat) * (5 / 4);
                        separatorY = ln_y layoutNode
                                     + (ln_height layoutNode - of_nat (length ls) * firstLineHeight) / 2
                                     + firstLineHeight + 2;
                        (i3, st6) = nextIndex st5;
                        (separatorLine, w2) =
                           createLine (ln_x layoutNode + 8) separatorY
                             (ln_x layoutNode + ln_width layoutNode - 8) separatorY i3
                             \<lparr>lo_strokeColor = Some ''#868e96'', lo_strokeStyle = None,
                              lo_strokeWidth = Some 1\<rparr> (cv_world st6)
                    in pushElement separatorLine (st6\<lparr>cv_world := w2\<rparr>))
              else st5))"

definition convLifeline :: "LayoutResult \<Rightarrow> rat \<Rightarrow> ParsedNode \<Rightarrow> Conv \<Rightarrow> Conv" where
  "convLifeline layout lifelineEndY node st =
     (case map_of (lr_nodes layout) (pn_id node) of
        None \<Rightarrow> st
      | Some layoutNode \<Rightarrow>
          (let centerX = ln_x layoutNode + ln_width layoutNode / 2;
               startY = ln_y layoutNode + ln_height layoutNode;
               (i1, st1) = nextIndex st;
               (lifeline, w1) =
                  createLine centerX startY centerX lifelineEndY i1
                    \<lparr>lo_strokeColor = Some ''#868e96'', lo_strokeStyle = Some Dashed,
                     lo_strokeWidth = Some 1\<rparr> (cv_world st1)
           in pushElement lifeline (st1\<lparr>cv_world := w1\<rparr>)))"

definition convLifelines :: "ParsedDiagram \<Rightarrow> LayoutResult \<Rightarrow> Conv \<Rightarrow> Conv" where
  "convLifelines diagram layout st =
     (if d_type diagram = Sequence
      then (let maxMessageY = fold (\<lambda>p m. max m (snd p)) (concat (map le_points (lr_edges layout))) 0
            in fold (convLifeline layout (maxMessageY + 80)) (d_nodes diagram) st)
      else st)"

text \<open>The key of \<open>parsedEdgeMap\<close>: \<open>`${edge.source}->${edge.target}`\<close>.\<close>

definition edgeKey :: "string \<Rightarrow> string \<Rightarrow> string" where
  "edgeKey source target = source @ ''->'' @ target"

definition bindingTo :: "string option \<Rightarrow> ExcalidrawBinding option" where
  "bindingTo elementId =
     (case elementId of
        None \<Rightarrow> None
      | Some i \<Rightarrow> if i = [] then None else Some \<lparr>b_elementId = i, b_focus = 0, b_gap = 1\<rparr>)"

definition convEdge :: "(string \<times> ParsedEdge) list \<Rightarrow> LayoutEdge \<Rightarrow> Conv \<Rightarrow> Conv" where
  "convEdge parsedEdgeMap lEdge st =
     (let bindings =
            \<lparr>ab_startBinding = bindingTo (map_of (cv_nodeElementIds st) (le_source lEdge)),
             ab_endBinding = bindingTo (map_of (cv_nodeElementIds st) (le_target lEdge))\<rparr>;
          parsedEdge = map_of parsedEdgeMap (edgeKey (le_source lEdge) (le_target lEdge));
          lineStyle = (case Option.bind parsedEdge pe_lineStyle of
                         Some s \<Rightarrow> s
                       | None \<Rightarrow> (case le_lineStyle lEdge of Some s \<Rightarrow> s | None \<Rightarrow> Solid));
          (i1, st1) = nextIndex st;
          (arrow, w1) = createArrow lEdge i1
                          (Some \<lparr>ao_bindings = Some bindings, ao_strokeStyle = Some lineStyle\<rparr>)
                          (cv_world st1);
          st2 = pushElement arrow
                  (st1\<lparr>cv_world := w1, cv_arrowElements := cv_arrowElements st1 @ [arrow]\<rparr>)
      in case le_label lEdge of
           None \<Rightarrow> st2
         | Some label \<Rightarrow>
             if label \<noteq> [] \<and> length (le_points lEdge) \<ge> 2
             then (let p0 = le_points lEdge ! 0;
                       p1 = le_points lEdge ! 1;
                       midX = (fst p0 + fst p1) / 2;
                       midY = (snd p0 + snd p1) / 2;
                       (i2, st3) = nextIndex st2;
                       (labelText, w2) =
                          createText (midX - (of_nat (length label) * 12 * (55 / 100)) / 2) (midY - 10)
                            label i2 (noTextOptions\<lparr>to_fontSize := Some 12\<rparr>) (cv_world st3)
                   in pushTextInfo labelText label (pushElement labelText (st3\<lparr>cv_world := w2\<rparr>)))
             else st2)"

definition isShape :: "ExcalidrawElement \<Rightarrow> bool" where
  "isShape e = (el_type e = ERectangle \<or> el_type e = EEllipse)"

definition bindsTo :: "ExcalidrawElement \<Rightarrow> string \<Rightarrow> bool" where
  "bindsTo arrow elementId =
     (case el_line arrow of
        None \<Rightarrow> False
      | Some l \<Rightarrow>
          (case lf_startBinding l of Some b \<Rightarrow> b_elementId b = elementId | None \<Rightarrow> False) \<or>
          (case lf_endBinding l of Some b \<Rightarrow> b_elementId b = elementId | None \<Rightarrow> False))"

definition reconcile :: "ExcalidrawElement list \<Rightarrow> ExcalidrawElement \<Rightarrow> ExcalidrawElement" where
  "reconcile arrowElements element =
     (if isShape element
      then (let boundArrows = map (\<lambda>arrow. (el_id arrow, BoundArrow))
                                (filter (\<lambda>arrow. bindsTo arrow (el_id element)) arrowElements)
            in if boundArrows \<noteq> [] then element\<lparr>el_boundElements := boundArrows\<rparr> else element)
      else element)"

record ConversionResult =
  cr_elements :: "ExcalidrawElement list"
  cr_textInfos :: "TextElementInfo list"

definition initialConv :: "World \<Rightarrow> Conv" where
  "initialConv w =
     \<lparr>cv_world = w, cv_indexCounter = 0, cv_elements = [], cv_textInfos = [],
      cv_nodeElementIds = [], cv_arrowElements = []\<rparr>"

definition synthesize :: "ParsedDiagram \<Rightarrow> LayoutResult \<Rightarrow> World \<Rightarrow> Conv" where
  "synthesize diagram layout w =
     (let st1 = fold (convSubgraph layout) (d_subgraphs diagram) (initialConv w);
          st2 = fold (convNode diagram layout) (d_nodes diagram) st1;
          st3 = convLifelines diagram layout st2;
          parsedEdgeMap = fold (\<lambda>edge. AList.update (edgeKey (pe_source edge) (pe_target edge)) edge)
                            (d_edges diagram) []
      in fold (convEdge parsedEdgeMap) (lr_edges layout) st3)"

definition convertToExcalidraw ::
  "ParsedDiagram \<Rightarrow> World \<Rightarrow> jsError + ConversionResult \<times> World" where
  "convertToExcalidraw diagram w =
     (case layoutDiagram diagram of
        Inl e \<Rightarrow> Inl e
      | Inr layout \<Rightarrow>
          (let st = synthesize diagram layout w
           in Inr (\<lparr>cr_elements = map (reconcile (cv_arrowElements st)) (cv_elements st),
                     cr_textInfos = cv_textInfos st\<rparr>, cv_world st)))"

section \<open>Vocabulary for the properties of the synthesizer\<close>

definition isArrow :: "ExcalidrawElement \<Rightarrow> bool" where
  "isArrow e = (el_type e = EArrow)"

text \<open>The elements of a conversion result; none when the conversion raised.\<close>

definition resultElements :: "jsError + ConversionResult \<times> World \<Rightarrow> ExcalidrawElement list" where
  "resultElements r = (case r of Inl e \<Rightarrow> [] | Inr (res, w) \<Rightarrow> cr_elements res)"

text \<open>An edge resolves when both of its endpoints are ids of parsed nodes.\<close>

definition edgeResolves :: "ParsedDiagram \<Rightarrow> ParsedEdge \<Rightarrow> bool" where
  "edgeResolves d e = (pe_source e \<in> pn_id ` set (d_nodes d) \<and> pe_target e \<in> pn_id ` set (d_nodes d))"



text \<open>
  One step of the synthesizer appends \<open>news\<close> to the element list, numbers them with the next
  order tokens, and records the arrows among them.
\<close>

definition stepOK :: "Conv \<Rightarrow> Conv \<Rightarrow> ExcalidrawElement list \<Rightarrow> bool" where
  "stepOK st st' news \<longleftrightarrow>
     cv_elements st' = cv_elements st @ news \<and>
     cv_indexCounter st' = cv_indexCounter st + length news \<and>
     map el_index news = map indexToken [cv_indexCounter st ..< cv_indexCounter st + length news] \<and>
     (\<forall>e \<in> set news. el_boundElements e = []) \<and>
     cv_arrowElements st' = cv_arrowElements st @ filter isArrow news"

definition newElems :: "Conv \<Rightarrow> Conv \<Rightarrow> ExcalidrawElement list" where
  "newElems st st' = drop (length (cv_elements st)) (cv_elements st')"

text \<open>What holds of the state between any two steps of the synthesizer.\<close>

definition convInv :: "Conv \<Rightarrow> bool" where
  "convInv st \<longleftrightarrow>
     map el_index (cv_elements st) = map indexToken [0..<cv_indexCounter st] \<and>
     filter isArrow (cv_elements st) = cv_arrowElements st \<and>
     (\<forall>e \<in> set (cv_elements st). el_boundElements e = []) \<and>
     (\<forall>k i. map_of (cv_nodeElementIds st) k = Some i \<longrightarrow>
        (\<exists>e \<in> set (cv_elements st). isShape e \<and> el_id e = i)) \<and>
     (\<forall>a \<in> set (cv_arrowElements st). \<forall>i. bindsTo a i \<longrightarrow>
        (\<exists>e \<in> set (cv_elements st). isShape e \<and> el_id e = i))"



text \<open>Concrete inputs for evaluation.\<close>

definition sampleIds :: "nat \<Rightarrow> string" where
  "sampleIds k = ''id'' @ decimal k"

definition sampleWorld :: World where
  "sampleWorld = \<lparr>w_seedCounter = 1000, w_idCalls = 0, w_randomIds = sampleIds, w_clock = (\<lambda>k. 0)\<rparr>"


definition sampleDiagram :: ParsedDiagram where
  "sampleDiagram =
     \<lparr>d_type = Flowchart, d_direction = DirTD,
      d_nodes = [\<lparr>pn_id = ''A'', pn_label = ''A'', pn_shape = Rectangle, pn_styleType = None\<rparr>,
                 \<lparr>pn_id = ''B'', pn_label = ''B'', pn_shape = Rectangle, pn_styleType = None\<rparr>],
      d_edges = [\<lparr>pe_source = ''A'', pe_target = ''B'', pe_label = Some ''go'',
                  pe_arrowType = ArrowHead, pe_lineStyle = None\<rparr>],
      d_subgraphs = [], d_directive = \<lparr>dir_theme = None, dir_styles = []\<rparr>,
      d_rawMermaid = ''flowchart TD\<newline>A-->|go|B''\<rparr>"

text \<open>The fields of an element that the properties below speak about.\<close>

definition elementSummary ::
  "ExcalidrawElement \<Rightarrow> string \<times> ElementType \<times> string \<times> (string \<times> BoundKind) list \<times> (string option \<times> string option) option" where
  "elementSummary e =
     (el_id e, el_type e, el_index e, el_boundElements e,
      map_option (\<lambda>l. (map_option b_elementId (lf_startBinding l),
                         map_option b_elementId (lf_endBinding l))) (el_line e))"

text \<open>
  The rank of a node as the specification words it: the length of the longest path from a
  node without incoming edge. \<open>reachIn es roots k\<close> are the ids at the end of a path of \<open>k\<close>
  edges that starts at a root; the longest path to an id among those of at most \<open>bound\<close>
  edges is the largest such \<open>k\<close>.
\<close>

fun reachIn :: "ParsedEdge list \<Rightarrow> string list \<Rightarrow> nat \<Rightarrow> string list" where
  "reachIn es roots 0 = roots"
| "reachIn es roots (Suc k) =
     remdups (map pe_target (filter (\<lambda>e. pe_source e \<in> set (reachIn es roots k)) es))"

definition rootIds :: "ParsedDiagram \<Rightarrow> string list" where
  "rootIds d =
     filter (\<lambda>i. \<not> list_ex (\<lambda>e. pe_target e = i) (d_edges d)) (map pn_id (d_nodes d))"

definition longestPathRank :: "ParsedDiagram \<Rightarrow> nat \<Rightarrow> string \<Rightarrow> nat option" where
  "longestPathRank d bound i =
     (case filter (\<lambda>k. i \<in> set (reachIn (d_edges d) (rootIds d) k)) (rev [0 ..< Suc bound]) of
        [] \<Rightarrow> None
      | k # _ \<Rightarrow> Some k)"

text \<open>The row of the layout that holds a node, and the left-to-right order of the columns.\<close>

definition rowOf :: "ParsedDiagram \<Rightarrow> string \<Rightarrow> nat option" where
  "rowOf d i =
     (case groupByDepth (d_nodes d)
             (calculateDepths (d_nodes d) (buildAdjacency (d_nodes d) (d_edges d))) of
        Inl _ \<Rightarrow> None
      | Inr rows \<Rightarrow>
          (case filter (\<lambda>k. i \<in> set (map pn_id (rows ! k))) [0 ..< length rows] of
             [] \<Rightarrow> None
           | k # _ \<Rightarrow> Some k))"

definition leftOf :: "LayoutResult \<Rightarrow> string \<Rightarrow> string \<Rightarrow> bool" where
  "leftOf layout a b =
     (case (map_of (lr_nodes layout) a, map_of (lr_nodes layout) b) of
        (Some na, Some nb) \<Rightarrow> ln_x na < ln_x nb
      | _ \<Rightarrow> False)"

definition diamondSource :: string where
  "diamondSource = ''flowchart TD\<newline>A-->B\<newline>A-->C\<newline>C-->B\<newline>B-->D''"

definition redeclaredSource :: string where
  "redeclaredSource =
     ''sequenceDiagram\<newline>participant A\<newline>participant B\<newline>participant A''"

definition inheritedNameSource :: string where
  "inheritedNameSource = ''erDiagram\<newline>constructor ||--|| ORDER : builds''"

section \<open>Properties of the style resolver\<close>

lemma inferStyleFromLabel_React_App: "inferStyleFromLabel ''React App'' = Some Ui"
  by code_simp

lemma resolveStyle_React_App_no_override:
  "resolveStyle ''A'' ''React App'' ''rectangle'' [] = Some (Style Ui)"
  by code_simp

text \<open>
  Claim C5. If the directive override map has an entry for the node id, style resolution
  returns exactly that override, whatever the shape and the label are.
\<close>

theorem resolveStyle_override_wins:
  "map_of explicitStyles nodeId = Some s \<Longrightarrow>
   resolveStyle nodeId label shape explicitStyles = Some (Style s)"
  by (simp add: resolveStyle_def getProp_def styleOfProp_def)

theorem resolveStyle_override_wins_witness:
  "map_of [(''A'', Db)] ''A'' = Some Db \<and>
   resolveStyle ''A'' ''React App'' ''rectangle'' [(''A'', Db)] = Some (Style Db)"
  using resolveStyle_override_wins [of "[(''A'', Db)]" "''A''" Db "''React App''" "''rectangle''"]
  by simp

section \<open>Properties of the regular expression engine\<close>






section \<open>Properties of the directive extractor\<close>






section \<open>Properties of the dialect detector\<close>








section \<open>Properties of the layout engine\<close>

lemma map_of_fold_update:
  "(map_of (fold (\<lambda>x. AList.update (f x) (g x)) xs acc) k = None)
     = (k \<notin> f ` set xs \<and> map_of acc k = None)"
  by (induction xs arbitrary: acc) (auto simp: update_conv')

subsection \<open>Sequence layout\<close>

lemma placeParticipant_dom:
  "(map_of (snd (placeParticipant n acc)) k = None) = (k \<noteq> pn_id n \<and> map_of (snd acc) k = None)"
  by (cases acc) (auto simp: placeParticipant_def Let_def update_conv')

lemma fold_placeParticipant_dom:
  "(map_of (snd (fold placeParticipant ns acc)) k = None)
     = (k \<notin> pn_id ` set ns \<and> map_of (snd acc) k = None)"
proof (induction ns arbitrary: acc)
  case Nil
  then show ?case by simp
next
  case (Cons n ns)
  show ?case
    using Cons.IH [of "placeParticipant n acc"] placeParticipant_dom [of n acc k]
    by simp blast
qed

lemma layoutSequence_nodes:
  "(map_of (lr_nodes (layoutSequenceDiagram d)) k = None) = (k \<notin> pn_id ` set (d_nodes d))"
  using fold_placeParticipant_dom [of "d_nodes d" "(0, [])" k]
  by (simp add: layoutSequenceDiagram_def split_def Let_def)

lemma fold_placeMessage_length:
  assumes "\<And>k. (map_of pos k = None) = (k \<notin> S)"
  shows "length (snd (fold (placeMessage pos) es acc))
     = length (snd acc) + length (filter (\<lambda>e. pe_source e \<in> S \<and> pe_target e \<in> S) es)"
proof (induction es arbitrary: acc)
  case Nil
  then show ?case by simp
next
  case (Cons e es)
  have m: "(k \<in> S) = (map_of pos k \<noteq> None)" for k
    using assms [of k] by auto
  show ?case
    using Cons.IH [of "placeMessage pos e acc"]
    by (cases acc) (auto simp: placeMessage_def m split: option.splits)
qed

lemma layoutSequence_edges:
  "length (lr_edges (layoutSequenceDiagram d))
     = length (filter (\<lambda>e. pe_source e \<in> pn_id ` set (d_nodes d) \<and>
                             pe_target e \<in> pn_id ` set (d_nodes d)) (d_edges d))"
proof -
  let ?pos = "snd (fold placeParticipant (d_nodes d) (0, []))"
  have "\<And>k. (map_of ?pos k = None) = (k \<notin> pn_id ` set (d_nodes d))"
    by (simp add: fold_placeParticipant_dom)
  from fold_placeMessage_length [OF this, of "d_edges d" "(DEFAULT_NODE_HEIGHT + 60, [])"]
  show ?thesis
    by (simp add: layoutSequenceDiagram_def split_def Let_def)
qed

subsection \<open>Entity-relationship layout\<close>

lemma placeEntities_ok:
  assumes "\<forall>n \<in> set ns. map_of sizes (pn_id n) \<noteq> None"
  shows "\<exists>st'. placeEntities sizes cols ns st = Inr st' \<and>
           (\<forall>k. (map_of (ep_positions st') k = None)
                  = (k \<notin> pn_id ` set ns \<and> map_of (ep_positions st) k = None))"
  using assms
proof (induction ns arbitrary: st)
  case Nil
  then show ?case by simp
next
  case (Cons n ns)
  from Cons.prems obtain sz where sz: "map_of sizes (pn_id n) = Some sz"
    by auto
  obtain st1 where st1: "placeEntity sizes cols n st = Inr st1"
    and d1: "\<And>k. (map_of (ep_positions st1) k = None)
                  = (k \<noteq> pn_id n \<and> map_of (ep_positions st) k = None)"
    by (auto simp: placeEntity_def sz Let_def update_conv')
  from Cons.prems have "\<forall>n \<in> set ns. map_of sizes (pn_id n) \<noteq> None"
    by simp
  from Cons.IH [OF this, of st1] obtain st' where
    "placeEntities sizes cols ns st1 = Inr st'"
    "\<forall>k. (map_of (ep_positions st') k = None)
           = (k \<notin> pn_id ` set ns \<and> map_of (ep_positions st1) k = None)"
    by blast
  then show ?case
    using st1 d1 by auto
qed

lemma layoutER_ok:
  "\<exists>layout. layoutERDiagram d = Inr layout \<and>
      (\<forall>k. (map_of (lr_nodes layout) k = None) = (k \<notin> pn_id ` set (d_nodes d))) \<and>
      lr_subgraphs layout = [] \<and> length (lr_edges layout) = length (d_edges d)"
proof -
  let ?sizes = "fold (\<lambda>node. AList.update (pn_id node) (calculateNodeSize (pn_label node)))
                  (d_nodes d) []"
  have "\<forall>n \<in> set (d_nodes d). map_of ?sizes (pn_id n) \<noteq> None"
    by (simp add: map_of_fold_update)
  from placeEntities_ok [OF this, of "erColumns (length (d_nodes d))"
      "\<lparr>ep_maxRowHeight = 0, ep_x = 0, ep_y = 0, ep_col = 0, ep_positions = []\<rparr>"]
  obtain st' where
    "placeEntities ?sizes (erColumns (length (d_nodes d))) (d_nodes d)
       \<lparr>ep_maxRowHeight = 0, ep_x = 0, ep_y = 0, ep_col = 0, ep_positions = []\<rparr> = Inr st'"
    "\<forall>k. (map_of (ep_positions st') k = None) = (k \<notin> pn_id ` set (d_nodes d))"
    by auto
  then show ?thesis
    by (simp add: layoutERDiagram_def Let_def)
qed

subsection \<open>Flowchart layout\<close>

lemma calculateDepths_dom:
  assumes "n \<in> set ns"
  shows "map_of (calculateDepths ns adjacency) (pn_id n) \<noteq> None"
proof -
  have "k \<in> pn_id ` set xs \<or> map_of d0 k \<noteq> None \<Longrightarrow>
        map_of (fold (\<lambda>node d. if map_of d (pn_id node) = None
                                then AList.update (pn_id node) 0 d else d) xs d0) k \<noteq> None"
    for xs :: "ParsedNode list" and d0 :: "(string \<times> nat) list" and k
    by (induction xs arbitrary: d0) (auto simp: update_conv')
  then show ?thesis
    using assms by (simp add: calculateDepths_def Let_def)
qed

lemma maxDepthOf_bound:
  "v \<in> set vs \<Longrightarrow> \<exists>m. maxDepthOf vs = Some m \<and> v \<le> m"
  by (induction vs) (auto split: option.splits)

lemma set_concat_push:
  "i < length xs \<Longrightarrow> set (concat (xs[i := xs ! i @ [a]])) = insert a (set (concat xs))"
proof (induction xs arbitrary: i)
  case Nil
  then show ?case by simp
next
  case (Cons x xs)
  then show ?case by (cases i) auto
qed

lemma pushToGroups_ok:
  assumes "\<forall>n \<in> set ns. (case map_of depths (pn_id n) of Some d \<Rightarrow> d | None \<Rightarrow> 0) < length groups"
  shows "\<exists>gs. pushToGroups ns depths groups = Inr gs \<and>
           set (concat gs) = set (concat groups) \<union> set ns"
  using assms
proof (induction ns arbitrary: groups)
  case Nil
  then show ?case by simp
next
  case (Cons n ns)
  let ?d = "case map_of depths (pn_id n) of Some d \<Rightarrow> d | None \<Rightarrow> 0"
  let ?g = "groups[?d := groups ! ?d @ [n]]"
  from Cons.prems have d: "?d < length groups"
    by simp
  from Cons.prems have "\<forall>m \<in> set ns.
      (case map_of depths (pn_id m) of Some d \<Rightarrow> d | None \<Rightarrow> 0) < length ?g"
    by simp
  from Cons.IH [OF this] obtain gs where
    "pushToGroups ns depths ?g = Inr gs" "set (concat gs) = set (concat ?g) \<union> set ns"
    by blast
  then show ?case
    using d set_concat_push [OF d, of n] by (auto simp: Let_def)
qed

lemma groupByDepth_ok:
  "\<exists>gs. groupByDepth ns (calculateDepths ns adjacency) = Inr gs \<and> set (concat gs) = set ns"
proof -
  let ?depths = "calculateDepths ns adjacency"
  let ?rows = "case maxDepthOf (map snd ?depths) of None \<Rightarrow> 0 | Some m \<Rightarrow> m + 1"
  have "(case map_of ?depths (pn_id n) of Some d \<Rightarrow> d | None \<Rightarrow> 0) < ?rows" if "n \<in> set ns" for n
  proof -
    from calculateDepths_dom [OF that] obtain v where v: "map_of ?depths (pn_id n) = Some v"
      by blast
    then have "v \<in> set (map snd ?depths)"
      by (metis map_of_SomeD set_zip_rightD zip_map_fst_snd)
    from maxDepthOf_bound [OF this] show ?thesis
      using v by auto
  qed
  then have "\<forall>n \<in> set ns.
      (case map_of ?depths (pn_id n) of Some d \<Rightarrow> d | None \<Rightarrow> 0) < length (replicate ?rows ([]::ParsedNode list))"
    by simp
  from pushToGroups_ok [OF this] show ?thesis
    by (simp add: groupByDepth_def)
qed

lemma image_snd_enumerate: "(\<lambda>p. f (snd p)) ` set (enumerate n xs) = f ` set xs"
proof -
  have "f ` set xs = f ` snd ` set (enumerate n xs)"
    by (metis map_snd_enumerate set_map)
  then show ?thesis
    by (simp add: image_image)
qed

lemma placeRow_dom:
  "(map_of (placeRow h r nr mx (di, rowNodes) pos) k = None)
     = (k \<notin> pn_id ` set rowNodes \<and> map_of pos k = None)"
  unfolding placeRow_def Let_def split_def prod.case
  by (simp only: map_of_fold_update image_snd_enumerate snd_conv)

lemma fold_placeRow_dom:
  "(map_of (fold (placeRow h r nr mx) rows pos) k = None)
     = (k \<notin> pn_id ` set (concat (map snd rows)) \<and> map_of pos k = None)"
proof (induction rows arbitrary: pos)
  case Nil
  then show ?case by simp
next
  case (Cons row rows)
  obtain di rowNodes where row: "row = (di, rowNodes)"
    by (cases row)
  show ?case
    using Cons.IH [of "placeRow h r nr mx (di, rowNodes) pos"] placeRow_dom [of h r nr mx di rowNodes pos k]
    by (simp add: row) blast
qed

lemma layoutFlowchart_ok:
  "\<exists>layout. layoutFlowchart d = Inr layout \<and>
      (\<forall>k. (map_of (lr_nodes layout) k = None) = (k \<notin> pn_id ` set (d_nodes d))) \<and>
      map ls_id (lr_subgraphs layout) = map sg_id (d_subgraphs d) \<and>
      length (lr_edges layout) = length (d_edges d)"
proof -
  from groupByDepth_ok [of "d_nodes d" "buildAdjacency (d_nodes d) (d_edges d)"]
  obtain gs where gs:
    "groupByDepth (d_nodes d) (calculateDepths (d_nodes d) (buildAdjacency (d_nodes d) (d_edges d)))
       = Inr gs" "set (concat gs) = set (d_nodes d)"
    by blast
  have "set (concat (map snd (enumerate 0 gs))) = set (d_nodes d)"
    using gs(2) by (simp only: map_snd_enumerate)
  then have "\<And>h r nr mx k. (map_of (fold (placeRow h r nr mx) (enumerate 0 gs) []) k = None)
               = (k \<notin> pn_id ` set (d_nodes d))"
    by (simp only: fold_placeRow_dom) simp
  then show ?thesis
    using gs(1)
    by (simp add: layoutFlowchart_def Let_def layoutSubgraph_def comp_def)
qed

lemma layoutDiagram_ok:
  "\<exists>layout. layoutDiagram d = Inr layout \<and>
      (\<forall>k. (map_of (lr_nodes layout) k = None) = (k \<notin> pn_id ` set (d_nodes d))) \<and>
      map ls_id (lr_subgraphs layout)
        = (if d_type d = Sequence \<or> d_type d = ER then [] else map sg_id (d_subgraphs d)) \<and>
      length (lr_edges layout)
        = (if d_type d = Sequence
           then length (filter (\<lambda>e. pe_source e \<in> pn_id ` set (d_nodes d) \<and>
                                    pe_target e \<in> pn_id ` set (d_nodes d)) (d_edges d))
           else length (d_edges d))"
proof (cases "d_type d")
  case Sequence
  have "lr_subgraphs (layoutSequenceDiagram d) = []"
    by (simp add: layoutSequenceDiagram_def split_def Let_def)
  then show ?thesis
    using Sequence layoutSequence_nodes [of d] layoutSequence_edges [of d]
    by (simp add: layoutDiagram_def)
next
  case ER
  then show ?thesis
    using layoutER_ok [of d] by (auto simp: layoutDiagram_def)
next
  case Flowchart
  then show ?thesis
    using layoutFlowchart_ok [of d] by (auto simp: layoutDiagram_def)
next
  case ClassDiagram
  then show ?thesis
    using layoutFlowchart_ok [of d] by (auto simp: layoutDiagram_def)
qed

section \<open>Properties of the scene synthesizer\<close>

lemma createBaseElement_props:
  "createBaseElement ty x y wd ht i w = (e, w') \<Longrightarrow>
   el_type e = ty \<and> el_index e = i \<and> el_boundElements e = [] \<and> el_line e = None"
  by (auto simp: createBaseElement_def generateSeed_def generateId_def Let_def split: prod.splits)

lemma createText_props:
  "createText x y t i opts w = (e, w') \<Longrightarrow>
   \<not> isShape e \<and> \<not> isArrow e \<and> el_index e = i \<and> el_boundElements e = []"
  by (auto simp: createText_def Let_def isShape_def isArrow_def split: prod.splits
        dest: createBaseElement_props)

lemma createLine_props:
  "createLine x1 y1 x2 y2 i opts w = (e, w') \<Longrightarrow>
   \<not> isShape e \<and> \<not> isArrow e \<and> el_index e = i \<and> el_boundElements e = []"
  by (auto simp: createLine_def Let_def isShape_def isArrow_def split: prod.splits
        dest: createBaseElement_props)

lemma createSubgraphRect_props:
  "createSubgraphRect l sg i w = (e, w') \<Longrightarrow>
   isShape e \<and> \<not> isArrow e \<and> el_index e = i \<and> el_boundElements e = []"
  by (auto simp: createSubgraphRect_def Let_def isShape_def isArrow_def split: prod.splits
        dest: createBaseElement_props)

lemma nodeShapeToElement_props:
  "nodeShapeToElement l n i w = (e, w') \<Longrightarrow>
   isShape e \<and> \<not> isArrow e \<and> el_index e = i \<and> el_boundElements e = []"
  by (auto simp: nodeShapeToElement_def createRectangle_def createEllipse_def isShape_def
        isArrow_def Let_def
        split: prod.splits NodeShape.splits dest: createBaseElement_props)

lemma createNodeWithLabel_props:
  "createNodeWithLabel l n i1 i2 w = ((shape, txt), w') \<Longrightarrow>
   isShape shape \<and> \<not> isArrow shape \<and> el_index shape = i1 \<and> el_boundElements shape = [] \<and>
   \<not> isShape (ti_element txt) \<and> \<not> isArrow (ti_element txt) \<and> el_index (ti_element txt) = i2 \<and>
   el_boundElements (ti_element txt) = []"
  by (auto simp: createNodeWithLabel_def Let_def split: prod.splits
        dest: nodeShapeToElement_props createText_props)

lemma createArrow_props:
  "createArrow edge i opts w = (e, w') \<Longrightarrow>
   \<not> isShape e \<and> isArrow e \<and> el_index e = i \<and> el_boundElements e = [] \<and>
   (\<forall>l. el_line e = Some l \<longrightarrow>
      lf_startBinding l = Option.bind (Option.bind opts ao_bindings) ab_startBinding \<and>
      lf_endBinding l = Option.bind (Option.bind opts ao_bindings) ab_endBinding) \<and>
   ((el_line e = None) = (length (le_points edge) < 2))"
  by (auto simp: createArrow_def Let_def isShape_def isArrow_def split: prod.splits if_splits
        dest: createBaseElement_props)

lemmas createText_fst = createText_props [OF surjective_pairing]
lemmas createLine_fst = createLine_props [OF surjective_pairing]
lemmas createArrow_fst = createArrow_props [OF surjective_pairing]
lemmas createSubgraphRect_fst = createSubgraphRect_props [OF surjective_pairing]

lemma createNodeWithLabel_fst:
  "isShape (fst (fst (createNodeWithLabel l n i1 i2 w)))"
  "\<not> isArrow (fst (fst (createNodeWithLabel l n i1 i2 w)))"
  "el_index (fst (fst (createNodeWithLabel l n i1 i2 w))) = i1"
  "el_boundElements (fst (fst (createNodeWithLabel l n i1 i2 w))) = []"
  "\<not> isShape (ti_element (snd (fst (createNodeWithLabel l n i1 i2 w))))"
  "\<not> isArrow (ti_element (snd (fst (createNodeWithLabel l n i1 i2 w))))"
  "el_index (ti_element (snd (fst (createNodeWithLabel l n i1 i2 w)))) = i2"
  "el_boundElements (ti_element (snd (fst (createNodeWithLabel l n i1 i2 w)))) = []"
  using createNodeWithLabel_props [of l n i1 i2 w "fst (fst (createNodeWithLabel l n i1 i2 w))"
      "snd (fst (createNodeWithLabel l n i1 i2 w))" "snd (createNodeWithLabel l n i1 i2 w)"]
  by simp_all

lemma upt_from:
  "[c..<Suc c] = [c]"
  "[c..<Suc (Suc c)] = [c, Suc c]"
  "[c..<Suc (Suc (Suc c))] = [c, Suc c, Suc (Suc c)]"
  "[c..<2 + c] = [c, Suc c]"
  "[c..<3 + c] = [c, Suc c, Suc (Suc c)]"
  by (simp_all add: upt_rec)

lemma convSubgraph_step:
  "stepOK st (convSubgraph layout sg st) (newElems st (convSubgraph layout sg st))"
  "filter isArrow (newElems st (convSubgraph layout sg st)) = []"
  "length (filter isShape (newElems st (convSubgraph layout sg st))) =
     (if find (\<lambda>l. ls_id l = sg_id sg) (lr_subgraphs layout) = None then 0 else 1)"
  "cv_nodeElementIds (convSubgraph layout sg st) = cv_nodeElementIds st"
  by (simp_all add: convSubgraph_def newElems_def stepOK_def split_def Let_def nextIndex_def
        pushElement_def pushTextInfo_def createSubgraphRect_fst createText_fst upt_from
        split: option.splits)

lemma convLifeline_step:
  "stepOK st (convLifeline layout y n st) (newElems st (convLifeline layout y n st))"
  "filter isArrow (newElems st (convLifeline layout y n st)) = []"
  "filter isShape (newElems st (convLifeline layout y n st)) = []"
  "cv_nodeElementIds (convLifeline layout y n st) = cv_nodeElementIds st"
  by (simp_all add: convLifeline_def newElems_def stepOK_def split_def Let_def nextIndex_def
        pushElement_def createLine_fst upt_from
        split: option.splits)

lemma convNode_step:
  "stepOK st (convNode diagram layout n st) (newElems st (convNode diagram layout n st))"
  "filter isArrow (newElems st (convNode diagram layout n st)) = []"
  "length (filter isShape (newElems st (convNode diagram layout n st))) =
     (if map_of (lr_nodes layout) (pn_id n) = None then 0 else 1)"
  by (simp_all add: convNode_def newElems_def stepOK_def split_def Let_def nextIndex_def
        pushElement_def createNodeWithLabel_fst createLine_fst upt_from
        split: option.splits)

lemma convNode_ids:
  "map_of (cv_nodeElementIds (convNode diagram layout n st)) k = Some i \<Longrightarrow>
     map_of (cv_nodeElementIds st) k = Some i \<or>
     (\<exists>e \<in> set (newElems st (convNode diagram layout n st)). isShape e \<and> el_id e = i)"
  by (auto simp: convNode_def newElems_def split_def Let_def nextIndex_def
        pushElement_def createNodeWithLabel_fst update_conv'
        split: option.splits if_splits)

lemma bindsTo_createArrow:
  assumes "bindsTo (fst (createArrow le i
             (Some \<lparr>ao_bindings = Some \<lparr>ab_startBinding = bindingTo s, ab_endBinding = bindingTo t\<rparr>,
                    ao_strokeStyle = ls\<rparr>) w)) x"
  shows "s = Some x \<or> t = Some x"
proof -
  let ?a = "fst (createArrow le i
             (Some \<lparr>ao_bindings = Some \<lparr>ab_startBinding = bindingTo s, ab_endBinding = bindingTo t\<rparr>,
                    ao_strokeStyle = ls\<rparr>) w)"
  from assms obtain l where l: "el_line ?a = Some l"
    by (auto simp: bindsTo_def split: option.splits)
  with createArrow_fst [of le i _ w]
  have "lf_startBinding l = bindingTo s" "lf_endBinding l = bindingTo t"
    by simp_all
  with assms l show ?thesis
    by (auto simp: bindsTo_def bindingTo_def split: option.splits if_splits)
qed

lemma convEdge_step:
  "stepOK st (convEdge pm le st) (newElems st (convEdge pm le st))"
  "length (filter isArrow (newElems st (convEdge pm le st))) = 1"
  "filter isShape (newElems st (convEdge pm le st)) = []"
  "cv_nodeElementIds (convEdge pm le st) = cv_nodeElementIds st"
  by (simp_all add: convEdge_def newElems_def stepOK_def split_def Let_def nextIndex_def
        pushElement_def pushTextInfo_def createArrow_fst createText_fst upt_from
        split: option.splits)

lemma convEdge_bindings:
  assumes "a \<in> set (filter isArrow (newElems st (convEdge pm le st)))" and "bindsTo a x"
  shows "\<exists>k. map_of (cv_nodeElementIds st) k = Some x"
proof -
  have "filter isArrow (newElems st (convEdge pm le st)) =
        [fst (createArrow le (indexToken (cv_indexCounter st))
           (Some \<lparr>ao_bindings = Some
                    \<lparr>ab_startBinding = bindingTo (map_of (cv_nodeElementIds st) (le_source le)),
                     ab_endBinding = bindingTo (map_of (cv_nodeElementIds st) (le_target le))\<rparr>,
                  ao_strokeStyle = Some
                    (case Option.bind (map_of pm (edgeKey (le_source le) (le_target le))) pe_lineStyle of
                       Some s \<Rightarrow> s
                     | None \<Rightarrow> (case le_lineStyle le of Some s \<Rightarrow> s | None \<Rightarrow> Solid))\<rparr>)
           (cv_world st))]"
    by (simp add: convEdge_def newElems_def split_def Let_def nextIndex_def
        pushElement_def pushTextInfo_def createArrow_fst createText_fst
        split: option.splits)
  with assms show ?thesis
    by (auto dest!: bindsTo_createArrow)
qed

lemma convInv_initial: "convInv (initialConv w)"
  by (simp add: convInv_def initialConv_def)

lemma convInv_step:
  assumes inv: "convInv st" and ok: "stepOK st st' news"
    and ids: "\<And>k i. map_of (cv_nodeElementIds st') k = Some i \<Longrightarrow>
                map_of (cv_nodeElementIds st) k = Some i \<or> (\<exists>e \<in> set news. isShape e \<and> el_id e = i)"
    and bnd: "\<And>a x. a \<in> set (filter isArrow news) \<Longrightarrow> bindsTo a x \<Longrightarrow>
                \<exists>k. map_of (cv_nodeElementIds st) k = Some x"
  shows "convInv st'"
proof -
  from ok have els: "cv_elements st' = cv_elements st @ news"
    and cnt: "cv_indexCounter st' = cv_indexCounter st + length news"
    and idx: "map el_index news = map indexToken [cv_indexCounter st ..< cv_indexCounter st + length news]"
    and be: "\<forall>e \<in> set news. el_boundElements e = []"
    and arr: "cv_arrowElements st' = cv_arrowElements st @ filter isArrow news"
    by (simp_all add: stepOK_def)
  from inv have i1: "map el_index (cv_elements st) = map indexToken [0..<cv_indexCounter st]"
    and i2: "filter isArrow (cv_elements st) = cv_arrowElements st"
    and i3: "\<forall>e \<in> set (cv_elements st). el_boundElements e = []"
    and i4: "\<And>k i. map_of (cv_nodeElementIds st) k = Some i \<Longrightarrow>
               \<exists>e \<in> set (cv_elements st). isShape e \<and> el_id e = i"
    and i5: "\<And>a i. a \<in> set (cv_arrowElements st) \<Longrightarrow> bindsTo a i \<Longrightarrow>
               \<exists>e \<in> set (cv_elements st). isShape e \<and> el_id e = i"
    by (simp_all add: convInv_def)
  have "[0..<cv_indexCounter st + length news]
          = [0..<cv_indexCounter st] @ [cv_indexCounter st..<cv_indexCounter st + length news]"
    by (rule upt_add_eq_append) simp
  then have c1: "map el_index (cv_elements st') = map indexToken [0..<cv_indexCounter st']"
    by (simp only: els cnt i1 idx map_append)
  have c2: "filter isArrow (cv_elements st') = cv_arrowElements st'"
    by (simp add: els arr i2)
  have c3: "\<forall>e \<in> set (cv_elements st'). el_boundElements e = []"
    using i3 be by (auto simp: els)
  have c4: "\<exists>e \<in> set (cv_elements st'). isShape e \<and> el_id e = i"
    if "map_of (cv_nodeElementIds st') k = Some i" for k i
    using ids [OF that] i4 by (auto simp: els)
  have c5: "\<exists>e \<in> set (cv_elements st'). isShape e \<and> el_id e = i"
    if "a \<in> set (cv_arrowElements st')" "bindsTo a i" for a i
  proof (cases "a \<in> set (cv_arrowElements st)")
    case True
    from i5 [OF True that(2)] show ?thesis by (auto simp: els)
  next
    case False
    with that(1) have "a \<in> set (filter isArrow news)"
      by (simp add: arr)
    from bnd [OF this that(2)] obtain k where "map_of (cv_nodeElementIds st) k = Some i" ..
    from i4 [OF this] show ?thesis by (auto simp: els)
  qed
  show ?thesis
    unfolding convInv_def
  proof (intro conjI allI impI ballI)
    show "map el_index (cv_elements st') = map indexToken [0..<cv_indexCounter st']"
      by (rule c1)
    show "filter isArrow (cv_elements st') = cv_arrowElements st'"
      by (rule c2)
    show "el_boundElements e = []" if "e \<in> set (cv_elements st')" for e
      using c3 that by simp
    show "\<exists>e \<in> set (cv_elements st'). isShape e \<and> el_id e = i"
      if "map_of (cv_nodeElementIds st') k = Some i" for k i
      using that by (rule c4)
    show "\<exists>e \<in> set (cv_elements st'). isShape e \<and> el_id e = i"
      if "a \<in> set (cv_arrowElements st')" "bindsTo a i" for a i
      using that by (rule c5)
  qed
qed

lemma convInv_convSubgraph:
  assumes "convInv st"
  shows "convInv (convSubgraph layout sg st)"
  by (rule convInv_step [OF assms convSubgraph_step(1)])
     (simp_all only: convSubgraph_step filter.simps list.set empty_iff simp_thms)

lemma convInv_convNode:
  assumes "convInv st"
  shows "convInv (convNode diagram layout n st)"
proof (rule convInv_step [OF assms convNode_step(1)])
  fix k i
  assume "map_of (cv_nodeElementIds (convNode diagram layout n st)) k = Some i"
  then show "map_of (cv_nodeElementIds st) k = Some i \<or>
             (\<exists>e \<in> set (newElems st (convNode diagram layout n st)). isShape e \<and> el_id e = i)"
    by (rule convNode_ids)
next
  fix a x
  assume "a \<in> set (filter isArrow (newElems st (convNode diagram layout n st)))"
  then show "\<exists>k. map_of (cv_nodeElementIds st) k = Some x"
    by (simp only: convNode_step list.set empty_iff)
qed

lemma convInv_convLifeline:
  assumes "convInv st"
  shows "convInv (convLifeline layout y n st)"
  by (rule convInv_step [OF assms convLifeline_step(1)])
     (simp_all only: convLifeline_step filter.simps list.set empty_iff simp_thms)

lemma convInv_convEdge:
  assumes "convInv st"
  shows "convInv (convEdge pm le st)"
proof (rule convInv_step [OF assms convEdge_step(1)])
  fix k i
  assume "map_of (cv_nodeElementIds (convEdge pm le st)) k = Some i"
  then show "map_of (cv_nodeElementIds st) k = Some i \<or>
             (\<exists>e \<in> set (newElems st (convEdge pm le st)). isShape e \<and> el_id e = i)"
    by (simp add: convEdge_step)
next
  fix a x
  assume "a \<in> set (filter isArrow (newElems st (convEdge pm le st)))" "bindsTo a x"
  then show "\<exists>k. map_of (cv_nodeElementIds st) k = Some x"
    by (rule convEdge_bindings)
qed

lemma convInv_fold:
  assumes "\<And>x st. convInv st \<Longrightarrow> convInv (f x st)"
  shows "convInv st \<Longrightarrow> convInv (fold f xs st)"
  by (induction xs arbitrary: st) (simp_all add: assms)

lemma convInv_synthesize: "convInv (synthesize diagram layout w)"
proof -
  have 1: "convInv (fold (convSubgraph layout) (d_subgraphs diagram) (initialConv w))"
    by (intro convInv_fold convInv_convSubgraph convInv_initial)
  have 2: "convInv (fold (convNode diagram layout) (d_nodes diagram)
                      (fold (convSubgraph layout) (d_subgraphs diagram) (initialConv w)))"
    by (intro convInv_fold convInv_convNode 1)
  have 3: "convInv (convLifelines diagram layout st)" if "convInv st" for st
    unfolding convLifelines_def Let_def
    using that by (auto intro: convInv_fold convInv_convLifeline)
  show ?thesis
    unfolding synthesize_def Let_def
    by (intro convInv_fold convInv_convEdge 3 2)
qed









lemma reconcile_props:
  "el_type (reconcile arrows e) = el_type e"
  "el_id (reconcile arrows e) = el_id e"
  "el_index (reconcile arrows e) = el_index e"
  "el_line (reconcile arrows e) = el_line e"
  "isShape (reconcile arrows e) = isShape e"
  "isArrow (reconcile arrows e) = isArrow e"
  "bindsTo (reconcile arrows e) = bindsTo e"
  by (simp_all add: reconcile_def isShape_def isArrow_def bindsTo_def Let_def fun_eq_iff)




lemma convert_result:
  "\<exists>layout. layoutDiagram d = Inr layout \<and>
     convertToExcalidraw d w =
       Inr (\<lparr>cr_elements = map (reconcile (cv_arrowElements (synthesize d layout w)))
                             (cv_elements (synthesize d layout w)),
             cr_textInfos = cv_textInfos (synthesize d layout w)\<rparr>,
            cv_world (synthesize d layout w)) \<and>
     (\<forall>k. (map_of (lr_nodes layout) k = None) = (k \<notin> pn_id ` set (d_nodes d))) \<and>
     map ls_id (lr_subgraphs layout)
       = (if d_type d = Sequence \<or> d_type d = ER then [] else map sg_id (d_subgraphs d)) \<and>
     length (lr_edges layout)
       = (if d_type d = Sequence then length (filter (edgeResolves d) (d_edges d))
          else length (d_edges d))"
proof -
  from layoutDiagram_ok [of d] obtain layout where l: "layoutDiagram d = Inr layout"
    and n: "\<forall>k. (map_of (lr_nodes layout) k = None) = (k \<notin> pn_id ` set (d_nodes d))"
    and s: "map ls_id (lr_subgraphs layout)
           = (if d_type d = Sequence \<or> d_type d = ER then [] else map sg_id (d_subgraphs d))"
    and e: "length (lr_edges layout)
        = (if d_type d = Sequence
           then length (filter (\<lambda>e. pe_source e \<in> pn_id ` set (d_nodes d) \<and>
                                    pe_target e \<in> pn_id ` set (d_nodes d)) (d_edges d))
           else length (d_edges d))"
    by blast
  have e': "length (lr_edges layout)
           = (if d_type d = Sequence then length (filter (edgeResolves d) (d_edges d))
              else length (d_edges d))"
    using e by (simp add: edgeResolves_def [abs_def])
  have c: "convertToExcalidraw d w =
       Inr (\<lparr>cr_elements = map (reconcile (cv_arrowElements (synthesize d layout w)))
                             (cv_elements (synthesize d layout w)),
             cr_textInfos = cv_textInfos (synthesize d layout w)\<rparr>,
            cv_world (synthesize d layout w))"
    by (simp add: convertToExcalidraw_def l Let_def)
  show ?thesis
    using l c n s e' by blast
qed

lemma reconcile_arrow: "isArrow a \<Longrightarrow> reconcile A a = a"
  by (simp add: reconcile_def isShape_def isArrow_def)

lemma filter_arrows_reconciled:
  "filter isArrow (map (reconcile A) els) = filter isArrow els"
proof (induction els)
  case Nil
  then show ?case by simp
next
  case (Cons e els)
  then show ?case by (simp add: reconcile_props reconcile_arrow)
qed

lemma filter_shapes_reconciled:
  "length (filter isShape (map (reconcile A) els)) = length (filter isShape els)"
  by (induction els) (simp_all add: reconcile_props)

lemma reconcile_bound:
  assumes "isShape e" and "el_boundElements e = []"
  shows "el_boundElements (reconcile A e)
           = map (\<lambda>a. (el_id a, BoundArrow)) (filter (\<lambda>a. bindsTo a (el_id e)) A)"
  using assms by (simp add: reconcile_def Let_def)

section \<open>The synthesized scene\<close>

subsection \<open>Evaluation of two conversions\<close>

lemma sample_layout:
  "layoutDiagram sampleDiagram =
     Inr \<lparr>lr_nodes = [(''A'', \<lparr>ln_id = ''A'', ln_x = 0, ln_y = 0, ln_width = 160, ln_height = 60\<rparr>),
                        (''B'', \<lparr>ln_id = ''B'', ln_x = 0, ln_y = 160, ln_width = 160, ln_height = 60\<rparr>)],
          lr_edges = [\<lparr>le_source = ''A'', le_target = ''B'', le_points = [(80, 60), (80, 160)],
                       le_label = Some ''go'', le_lineStyle = None\<rparr>],
          lr_subgraphs = [], lr_width = Num 240, lr_height = Num 320\<rparr>"
  by code_simp


lemmas synth_defs = synthesize_def convSubgraph_def convNode_def convLifelines_def
  convLifeline_def convEdge_def nextIndex_def indexToken_def createNodeWithLabel_def nodeShapeToElement_def
  createRectangle_def createEllipse_def createText_def createBaseElement_def createArrow_def createLine_def
  createSubgraphRect_def generateSeed_def generateId_def edgeKey_def bindingTo_def reconcile_def
  isShape_def bindsTo_def resultElements_def elementSummary_def
  pushElement_def pushTextInfo_def initialConv_def sampleWorld_def sampleIds_def getStyleColors_def
  DEFAULT_STYLE_def noTextOptions_def maxLineLength_def mathRound_def Let_def decimal.simps digitChar_def

lemma sample_elements:
  "map elementSummary (resultElements (convertToExcalidraw sampleDiagram sampleWorld))
   = [(''id0'', ERectangle, ''a0'', [(''id6'', BoundArrow)], None),
      (''id2'', EText, ''a1'', [], None),
      (''id3'', ERectangle, ''a2'', [(''id6'', BoundArrow)], None),
      (''id5'', EText, ''a3'', [], None),
      (''id6'', EArrow, ''a4'', [], Some (Some ''id0'', Some ''id3'')),
      (''id8'', EText, ''a5'', [], None)]"
  unfolding convertToExcalidraw_def sample_layout
  by (simp add: synth_defs sampleDiagram_def)




lemma isShape_count:
  "length (filter isShape els) = length (filter (\<lambda>t. t = ERectangle \<or> t = EEllipse) (map el_type els))"
  by (induction els) (simp_all add: isShape_def)

subsection \<open>Shapes and arrows\<close>




subsection \<open>Bindings\<close>

text \<open>
  Claim C3. A conversion never raises, and in its scene the bindings are symmetric: the
  back-reference list of every shape primitive consists of exactly the arrow primitives,
  in scene order, whose start or end binding names the identity of that shape; and every
  identity that an arrow binding names is the identity of a shape primitive of the scene.
\<close>

theorem bindings_symmetric:
  "\<exists>res w'. convertToExcalidraw d w = Inr (res, w') \<and>
     (\<forall>e \<in> set (cr_elements res). isShape e \<longrightarrow>
        el_boundElements e
          = map (\<lambda>a. (el_id a, BoundArrow))
              (filter (\<lambda>a. bindsTo a (el_id e)) (filter isArrow (cr_elements res)))) \<and>
     (\<forall>a \<in> set (cr_elements res). \<forall>i. isArrow a \<longrightarrow> bindsTo a i \<longrightarrow>
        (\<exists>e \<in> set (cr_elements res). isShape e \<and> el_id e = i))"
proof -
  obtain layout where l: "layoutDiagram d = Inr layout"
    and c: "convertToExcalidraw d w =
           Inr (\<lparr>cr_elements = map (reconcile (cv_arrowElements (synthesize d layout w)))
                                 (cv_elements (synthesize d layout w)),
                 cr_textInfos = cv_textInfos (synthesize d layout w)\<rparr>,
                cv_world (synthesize d layout w))"
    and n: "\<forall>k. (map_of (lr_nodes layout) k = None) = (k \<notin> pn_id ` set (d_nodes d))"
    and s: "map ls_id (lr_subgraphs layout)
           = (if d_type d = Sequence \<or> d_type d = ER then [] else map sg_id (d_subgraphs d))"
    and e: "length (lr_edges layout)
           = (if d_type d = Sequence then length (filter (edgeResolves d) (d_edges d))
              else length (d_edges d))"
    using convert_result [of d w] by blast
  let ?st = "synthesize d layout w"
  let ?A = "cv_arrowElements ?st"
  let ?els = "map (reconcile ?A) (cv_elements ?st)"
  have inv: "convInv ?st"
    by (rule convInv_synthesize)
  then have arr: "filter isArrow (cv_elements ?st) = ?A"
    and be: "\<And>e. e \<in> set (cv_elements ?st) \<Longrightarrow> el_boundElements e = []"
    and bnd: "\<And>a i. a \<in> set ?A \<Longrightarrow> bindsTo a i \<Longrightarrow>
                \<exists>e \<in> set (cv_elements ?st). isShape e \<and> el_id e = i"
    by (simp_all add: convInv_def)
  have arr': "filter isArrow ?els = ?A"
    by (simp only: filter_arrows_reconciled arr)
  have 1: "el_boundElements e'
             = map (\<lambda>a. (el_id a, BoundArrow)) (filter (\<lambda>a. bindsTo a (el_id e')) (filter isArrow ?els))"
    if "e' \<in> set ?els" "isShape e'" for e'
  proof -
    from that(1) obtain e where e: "e \<in> set (cv_elements ?st)" "e' = reconcile ?A e"
      by auto
    with that(2) have "isShape e"
      by (simp add: reconcile_props)
    from reconcile_bound [OF this be [OF e(1)], of ?A] show ?thesis
      by (simp only: arr' e(2) reconcile_props)
  qed
  have 2: "\<exists>e \<in> set ?els. isShape e \<and> el_id e = i"
    if "a' \<in> set ?els" "isArrow a'" "bindsTo a' i" for a' i
  proof -
    from that(1,2) have "a' \<in> set (filter isArrow ?els)"
      by simp
    then have "a' \<in> set ?A"
      by (simp only: arr')
    from bnd [OF this that(3)] obtain e where "e \<in> set (cv_elements ?st)" "isShape e" "el_id e = i"
      by blast
    then have "reconcile ?A e \<in> set ?els \<and> isShape (reconcile ?A e) \<and> el_id (reconcile ?A e) = i"
      by (simp add: reconcile_props)
    then show ?thesis
      by blast
  qed
  show ?thesis
    using 1 2 by (simp add: c)
qed

theorem bindings_symmetric_witness:
  "isShape (resultElements (convertToExcalidraw sampleDiagram sampleWorld) ! 0) \<and>
   el_id (resultElements (convertToExcalidraw sampleDiagram sampleWorld) ! 0) = ''id0'' \<and>
   el_boundElements (resultElements (convertToExcalidraw sampleDiagram sampleWorld) ! 0)
     = map (\<lambda>a. (el_id a, BoundArrow))
         (filter (\<lambda>a. bindsTo a ''id0'')
            (filter isArrow (resultElements (convertToExcalidraw sampleDiagram sampleWorld)))) \<and>
   isArrow (resultElements (convertToExcalidraw sampleDiagram sampleWorld) ! 4) \<and>
   bindsTo (resultElements (convertToExcalidraw sampleDiagram sampleWorld) ! 4) ''id0'' \<and>
   (\<exists>e \<in> set (resultElements (convertToExcalidraw sampleDiagram sampleWorld)).
      isShape e \<and> el_id e = ''id0'')"
proof -
  let ?E = "resultElements (convertToExcalidraw sampleDiagram sampleWorld)"
  have len: "length ?E = 6"
    using arg_cong [OF sample_elements, of length] by simp
  have s0: "elementSummary (?E ! 0) = (''id0'', ERectangle, ''a0'', [(''id6'', BoundArrow)], None)"
    using arg_cong [OF sample_elements, of "\<lambda>xs. xs ! 0"] len by simp
  have s4: "elementSummary (?E ! 4) = (''id6'', EArrow, ''a4'', [], Some (Some ''id0'', Some ''id3''))"
    using arg_cong [OF sample_elements, of "\<lambda>xs. xs ! 4"] len by simp
  have m0: "?E ! 0 \<in> set ?E" and m4: "?E ! 4 \<in> set ?E"
    using len by simp_all
  have shape0: "isShape (?E ! 0)" and id0: "el_id (?E ! 0) = ''id0''"
    using s0 by (simp_all add: elementSummary_def isShape_def)
  have arrow4: "isArrow (?E ! 4)"
    using s4 by (simp add: elementSummary_def isArrow_def)
  have binds4: "bindsTo (?E ! 4) ''id0''"
    using s4 by (auto simp: elementSummary_def bindsTo_def split: option.splits)
  from bindings_symmetric [of sampleDiagram sampleWorld]
  obtain res w' where c: "convertToExcalidraw sampleDiagram sampleWorld = Inr (res, w')"
    and b1: "\<forall>e \<in> set (cr_elements res). isShape e \<longrightarrow>
        el_boundElements e
          = map (\<lambda>a. (el_id a, BoundArrow))
              (filter (\<lambda>a. bindsTo a (el_id e)) (filter isArrow (cr_elements res)))"
    and b2: "\<forall>a \<in> set (cr_elements res). \<forall>i. isArrow a \<longrightarrow> bindsTo a i \<longrightarrow>
        (\<exists>e \<in> set (cr_elements res). isShape e \<and> el_id e = i)"
    by blast
  have E: "cr_elements res = ?E"
    by (simp add: resultElements_def c)
  from b1 m0 shape0 have
    "el_boundElements (?E ! 0)
       = map (\<lambda>a. (el_id a, BoundArrow)) (filter (\<lambda>a. bindsTo a (el_id (?E ! 0))) (filter isArrow ?E))"
    unfolding E by blast
  moreover from b2 m4 arrow4 binds4 have "\<exists>e \<in> set ?E. isShape e \<and> el_id e = ''id0''"
    unfolding E by blast
  ultimately show ?thesis
    using shape0 id0 arrow4 binds4 by simp
qed

subsection \<open>Order tokens\<close>



end
